theory Spec2Isabelle
  imports Complex_Main "HOL-Library.Multiset"
begin

section \<open>JavaScript values used by the credit-scoring engine\<close>

text \<open>
  Numbers of the source are IEEE doubles; they are idealised here as real numbers, with
  the one non-real value the code can produce, \<open>NaN\<close>, kept apart.
\<close>

datatype jsnum = Num real | NaN

fun jadd :: "jsnum \<Rightarrow> jsnum \<Rightarrow> jsnum" where
  "jadd (Num a) (Num b) = Num (a + b)"
| "jadd _ _ = NaN"

fun jmul :: "jsnum \<Rightarrow> jsnum \<Rightarrow> jsnum" where
  "jmul (Num a) (Num b) = Num (a * b)"
| "jmul _ _ = NaN"

text \<open>Division by a constant of the source, none of which is zero.\<close>

fun jdiv :: "jsnum \<Rightarrow> real \<Rightarrow> jsnum" where
  "jdiv (Num a) c = Num (a / c)"
| "jdiv NaN c = NaN"

text \<open>\<open>Math.round\<close> rounds half up, \<open>floor (x + 0.5)\<close>, and passes \<open>NaN\<close> through.\<close>

fun math_round :: "jsnum \<Rightarrow> jsnum" where
  "math_round (Num a) = Num (of_int (round a))"
| "math_round NaN = NaN"

text \<open>\<open>Math.max\<close> and \<open>Math.min\<close> return \<open>NaN\<close> as soon as one argument is \<open>NaN\<close>.\<close>

fun math_max :: "jsnum \<Rightarrow> jsnum \<Rightarrow> jsnum" where
  "math_max (Num a) (Num b) = Num (max a b)"
| "math_max _ _ = NaN"

fun math_min :: "jsnum \<Rightarrow> jsnum \<Rightarrow> jsnum" where
  "math_min (Num a) (Num b) = Num (min a b)"
| "math_min _ _ = NaN"

text \<open>Comparisons with \<open>NaN\<close> are false.\<close>

fun jge :: "jsnum \<Rightarrow> real \<Rightarrow> bool" where
  "jge (Num a) c = (a \<ge> c)"
| "jge NaN c = False"

fun jlt :: "jsnum \<Rightarrow> real \<Rightarrow> bool" where
  "jlt (Num a) c = (a < c)"
| "jlt NaN c = False"

fun jgt :: "jsnum \<Rightarrow> real \<Rightarrow> bool" where
  "jgt (Num a) c = (a > c)"
| "jgt NaN c = False"

subsection \<open>The values a field of a request can hold\<close>

text \<open>
  The analysis route hands the \<open>applicantData\<close> of the request body to the engine as it
  is, so a field holds any JSON value or is absent.  The engine only tests a field for
  truth (\<open>||\<close>), converts it to a number (\<open>/\<close>, \<open>*\<close>, \<open><\<close>, \<open>>\<close>) or uses it as a
  property key, so a value is kept with what these three operations see of it:
  \<^item> a string with the number that the conversion reads from it;
  \<^item> an array with the string it joins to and the number read from that string, or
    nothing when an element cannot be converted and the join raises;
  \<^item> an object with the fact whether it has a property \<open>toString\<close> of its own; a JSON
    value is never callable, so the conversion of such an object to a primitive raises a
    \<open>TypeError\<close>, and every other object converts to \<open>[object Object]\<close>.
\<close>

datatype jsval =
    Undefined
  | Null
  | Boolean bool
  | Number real
  | Not_a_number
  | Text string jsnum
  | Array_value "(string \<times> jsnum) option"
  | Object_value bool

datatype js_error = Model_not_loaded | TypeError | Tensor_error

fun of_jsnum :: "jsnum \<Rightarrow> jsval" where
  "of_jsnum (Num r) = Number r"
| "of_jsnum NaN = Not_a_number"

fun truthy :: "jsval \<Rightarrow> bool" where
  "truthy Undefined = False"
| "truthy Null = False"
| "truthy (Boolean b) = b"
| "truthy (Number r) = (r \<noteq> 0)"
| "truthy Not_a_number = False"
| "truthy (Text s n) = (s \<noteq> [])"
| "truthy (Array_value j) = True"
| "truthy (Object_value own_toString) = True"

fun to_number :: "jsval \<Rightarrow> js_error + jsnum" where
  "to_number Undefined = Inr NaN"
| "to_number Null = Inr (Num 0)"
| "to_number (Boolean b) = Inr (Num (if b then 1 else 0))"
| "to_number (Number r) = Inr (Num r)"
| "to_number Not_a_number = Inr NaN"
| "to_number (Text s n) = Inr n"
| "to_number (Array_value None) = Inl TypeError"
| "to_number (Array_value (Some (s, n))) = Inr n"
| "to_number (Object_value own_toString) = (if own_toString then Inl TypeError else Inr NaN)"

text \<open>
  A property key is a string; the decimal form of a number is kept as the number, since
  it is none of the names of the objects looked up here.
\<close>

datatype property_key = Named string | Decimal_form real

fun to_property_key :: "jsval \<Rightarrow> js_error + property_key" where
  "to_property_key Undefined = Inr (Named ''undefined'')"
| "to_property_key Null = Inr (Named ''null'')"
| "to_property_key (Boolean b) = Inr (Named (if b then ''true'' else ''false''))"
| "to_property_key (Number r) = Inr (Decimal_form r)"
| "to_property_key Not_a_number = Inr (Named ''NaN'')"
| "to_property_key (Text s n) = Inr (Named s)"
| "to_property_key (Array_value None) = Inl TypeError"
| "to_property_key (Array_value (Some (s, n))) = Inr (Named s)"
| "to_property_key (Object_value own_toString) =
     (if own_toString then Inl TypeError else Inr (Named ''[object Object]''))"

text \<open>What happens after an expression that may raise: the error passes through.\<close>

definition and_then :: "js_error + 'a \<Rightarrow> ('a \<Rightarrow> js_error + 'b) \<Rightarrow> js_error + 'b" where
  "and_then m f = (case m of Inl e \<Rightarrow> Inl e | Inr v \<Rightarrow> f v)"

text \<open>\<open>x || d\<close>: the default is taken when the field is falsy.\<close>

definition js_or :: "jsval \<Rightarrow> jsval \<Rightarrow> jsval" where
  "js_or x d = (if truthy x then x else d)"

text \<open>\<open>x / c\<close> for a constant \<open>c\<close>: the value is converted to a number first.\<close>

definition js_div :: "jsval \<Rightarrow> real \<Rightarrow> js_error + jsval" where
  "js_div x c = and_then (to_number x) (\<lambda>n. Inr (of_jsnum (jdiv n c)))"

text \<open>
  \<open>x > c\<close> and \<open>x < c\<close> for a constant \<open>c\<close>: the value is converted to a number, and a
  comparison with \<open>NaN\<close>, which \<open>undefined\<close> converts to, is false; \<open>null\<close> converts to 0.
\<close>

definition js_gt :: "jsval \<Rightarrow> real \<Rightarrow> js_error + bool" where
  "js_gt x c = and_then (to_number x) (\<lambda>n. Inr (jgt n c))"

definition js_lt :: "jsval \<Rightarrow> real \<Rightarrow> js_error + bool" where
  "js_lt x c = and_then (to_number x) (\<lambda>n. Inr (jlt n c))"

text \<open>\<open>a && b\<close>: the right operand is evaluated only when the left one is true.\<close>

definition js_and :: "js_error + bool \<Rightarrow> js_error + bool \<Rightarrow> js_error + bool" where
  "js_and a b = and_then a (\<lambda>x. if x then b else Inr False)"

text \<open>
  Property lookup \<open>obj[key]\<close> on an object literal: an own property wins, then the
  properties every object inherits from \<open>Object.prototype\<close> (all of them functions or
  objects, hence truthy and not numbers), and \<open>undefined\<close> otherwise.
\<close>

datatype 'a js_lookup = Own 'a | Inherited string | Undefined_property

definition object_prototype_keys :: "string list" where
  "object_prototype_keys =
     [''constructor'', ''__defineGetter__'', ''__defineSetter__'', ''hasOwnProperty'',
      ''__lookupGetter__'', ''__lookupSetter__'', ''isPrototypeOf'',
      ''propertyIsEnumerable'', ''toString'', ''valueOf'', ''__proto__'',
      ''toLocaleString'']"

definition js_get :: "(string \<times> 'a) list \<Rightarrow> string \<Rightarrow> 'a js_lookup" where
  "js_get obj k =
     (case map_of obj k of
        Some v \<Rightarrow> Own v
      | None \<Rightarrow> if k \<in> set object_prototype_keys then Inherited k else Undefined_property)"

definition js_get_key :: "(string \<times> 'a) list \<Rightarrow> property_key \<Rightarrow> 'a js_lookup" where
  "js_get_key obj key =
     (case key of Named k \<Rightarrow> js_get obj k | Decimal_form r \<Rightarrow> Undefined_property)"

section \<open>The applicant data read by the engine\<close>

record applicantData =
  applicant_id :: "string option"
  creditScore :: jsval
  annualIncome :: jsval
  debtToIncomeRatio :: jsval
  employmentLength :: jsval
  loanAmount :: jsval
  loanTerm :: jsval
  paymentHistoryScore :: jsval
  creditUtilization :: jsval
  numberOfAccounts :: jsval
  recentInquiries :: jsval
  collateralValue :: jsval
  loanPurpose :: jsval
  timeAtAddress :: jsval
  age :: jsval

text \<open>
  The argument of an engine method is \<open>Some\<close> object, or \<open>None\<close> for \<open>null\<close> and
  \<open>undefined\<close>, on which reading a property raises a \<open>TypeError\<close>.  The object with every
  field absent:
\<close>

definition empty_applicant :: applicantData where
  "empty_applicant =
     \<lparr> applicant_id = None, creditScore = Undefined, annualIncome = Undefined,
       debtToIncomeRatio = Undefined, employmentLength = Undefined, loanAmount = Undefined,
       loanTerm = Undefined, paymentHistoryScore = Undefined, creditUtilization = Undefined,
       numberOfAccounts = Undefined, recentInquiries = Undefined,
       collateralValue = Undefined, loanPurpose = Undefined, timeAtAddress = Undefined,
       age = Undefined \<rparr>"

section \<open>Feature extraction: \<open>preprocessFeatures\<close> and \<open>getLoanPurposeScore\<close>\<close>

datatype purpose_value = Score real | Prototype_member string

definition purposeScores :: "(string \<times> real) list" where
  "purposeScores =
     [(''home_purchase'', 9), (''home_improvement'', 8), (''debt_consolidation'', 6),
      (''auto_loan'', 7), (''business'', 5), (''education'', 8), (''medical'', 7),
      (''vacation'', 3), (''other'', 5)]"

definition getLoanPurposeScore :: "jsval \<Rightarrow> js_error + purpose_value" where
  "getLoanPurposeScore purpose =
     and_then (to_property_key purpose) (\<lambda>key.
       case js_get_key purposeScores key of
         Own v \<Rightarrow> Inr (if v = 0 then Score 5 else Score v)
       | Inherited k \<Rightarrow> Inr (Prototype_member k)
       | Undefined_property \<Rightarrow> Inr (Score 5))"

text \<open>Dividing by ten: a number is divided, a function or object converts to \<open>NaN\<close>.\<close>

fun purpose_div :: "purpose_value \<Rightarrow> real \<Rightarrow> jsnum" where
  "purpose_div (Score v) c = Num (v / c)"
| "purpose_div (Prototype_member k) c = NaN"

definition push :: "'a list \<Rightarrow> 'a \<Rightarrow> 'a list" where
  "push xs x = xs @ [x]"

text \<open>
  The arguments of the twelve calls of \<open>features.push\<close>, in the order of the source.  The
  debt-to-income ratio and the credit utilization are pushed as they are, unconverted.
\<close>

definition feature_pushes :: "applicantData \<Rightarrow> (js_error + jsval) list" where
  "feature_pushes a =
     [js_div (js_or (creditScore a) (Number 600)) 800,
      js_div (js_or (annualIncome a) (Number 50000)) 200000,
      Inr (js_or (debtToIncomeRatio a) (Number 0.3)),
      js_div (js_or (employmentLength a) (Number 2)) 20,
      js_div (js_or (loanAmount a) (Number 50000)) 500000,
      js_div (js_or (loanTerm a) (Number 15)) 30,
      js_div (js_or (paymentHistoryScore a) (Number 80)) 100,
      Inr (js_or (creditUtilization a) (Number 0.3)),
      js_div (js_or (numberOfAccounts a) (Number 5)) 20,
      js_div (js_or (recentInquiries a) (Number 2)) 10,
      js_div (js_or (collateralValue a) (Number 0)) 1000000,
      and_then (getLoanPurposeScore (loanPurpose a)) (\<lambda>v. Inr (of_jsnum (purpose_div v 10)))]"

text \<open>The calls one after the other; the first argument that raises ends the function.\<close>

fun push_all :: "(js_error + 'a) list \<Rightarrow> 'a list \<Rightarrow> js_error + 'a list" where
  "push_all [] features = Inr features"
| "push_all (Inl e # es) features = Inl e"
| "push_all (Inr v # es) features = push_all es (push features v)"

definition preprocessFeatures :: "applicantData option \<Rightarrow> js_error + jsval list" where
  "preprocessFeatures applicantData =
     (case applicantData of
        None \<Rightarrow> Inl TypeError
      | Some a \<Rightarrow> push_all (feature_pushes a) [])"

section \<open>The fraud heuristic: \<open>evaluateFraudRisk\<close>\<close>

datatype risk_level = LOW | MEDIUM | HIGH | VERY_HIGH

record fraud_assessment =
  fraudScore :: int
  fraud_riskLevel :: risk_level
  riskFactors :: "string list"
  recommendation :: string

text \<open>
  One \<open>if\<close> of the source: when the condition is true the risk factor is pushed and the
  points are added to \<open>fraudScore\<close>.
\<close>

definition fraud_check ::
    "js_error + bool \<Rightarrow> string \<Rightarrow> int \<Rightarrow> string list \<times> int \<Rightarrow> js_error + string list \<times> int" where
  "fraud_check cond risk_factor points st =
     and_then cond (\<lambda>c. Inr (if c then (push (fst st) risk_factor, snd st + points) else st))"

text \<open>
  The four checks in the order of the source, each updating the pair of \<open>riskFactors\<close>
  and \<open>fraudScore\<close>.
\<close>

definition fraud_checks :: "applicantData \<Rightarrow> js_error + string list \<times> int" where
  "fraud_checks a =
     and_then (fraud_check (js_and (js_gt (annualIncome a) 200000) (js_lt (employmentLength a) 1))
                 ''High income with short employment history'' 30 ([], 0)) (\<lambda>st.
     and_then (fraud_check (js_lt (timeAtAddress a) 6)
                 ''Recently moved to current address'' 10 st) (\<lambda>st.
     and_then (fraud_check (js_and (js_lt (age a) 21) (js_gt (creditScore a) 750))
                 ''High credit score at young age'' 20 st) (\<lambda>st.
     fraud_check (js_gt (recentInquiries a) 5)
                 ''Multiple recent credit inquiries'' 15 st)))"

definition evaluateFraudRisk :: "applicantData option \<Rightarrow> js_error + fraud_assessment" where
  "evaluateFraudRisk applicantData =
     (case applicantData of
        None \<Rightarrow> Inl TypeError
      | Some a \<Rightarrow>
          and_then (fraud_checks a) (\<lambda>(risk_factors, fraud_score).
            Inr \<lparr> fraudScore = fraud_score,
                  fraud_riskLevel =
                    (if fraud_score > 50 then HIGH
                     else if fraud_score > 25 then MEDIUM else LOW),
                  riskFactors = risk_factors,
                  recommendation =
                    (if fraud_score > 50 then ''MANUAL_REVIEW''
                     else ''AUTOMATED_PROCESSING'') \<rparr>))"

text \<open>
  The rule set as the specification words it: four independent rules, each with a
  condition on the applicant and a fixed number of points.  A condition on a field holds
  when the field is a number that satisfies it.
\<close>

definition number_gt :: "jsval \<Rightarrow> real \<Rightarrow> bool" where
  "number_gt x c = (case x of Number v \<Rightarrow> v > c | _ \<Rightarrow> False)"

definition number_lt :: "jsval \<Rightarrow> real \<Rightarrow> bool" where
  "number_lt x c = (case x of Number v \<Rightarrow> v < c | _ \<Rightarrow> False)"

datatype fraud_rule =
  High_income_short_employment | Recently_moved | Young_high_score | Many_inquiries

fun rule_holds :: "fraud_rule \<Rightarrow> applicantData \<Rightarrow> bool" where
  "rule_holds High_income_short_employment a =
     (number_gt (annualIncome a) 200000 \<and> number_lt (employmentLength a) 1)"
| "rule_holds Recently_moved a = number_lt (timeAtAddress a) 6"
| "rule_holds Young_high_score a = (number_lt (age a) 21 \<and> number_gt (creditScore a) 750)"
| "rule_holds Many_inquiries a = number_gt (recentInquiries a) 5"

fun rule_points :: "fraud_rule \<Rightarrow> int" where
  "rule_points High_income_short_employment = 30"
| "rule_points Recently_moved = 10"
| "rule_points Young_high_score = 20"
| "rule_points Many_inquiries = 15"

definition rule_contribution :: "applicantData \<Rightarrow> fraud_rule \<Rightarrow> int" where
  "rule_contribution a r = (if rule_holds r a then rule_points r else 0)"

definition fraud_rules :: "fraud_rule list" where
  "fraud_rules = [High_income_short_employment, Recently_moved, Young_high_score, Many_inquiries]"

text \<open>A field that is a number or absent.\<close>

definition number_or_absent :: "jsval \<Rightarrow> bool" where
  "number_or_absent x = (case x of Undefined \<Rightarrow> True | Number v \<Rightarrow> True | _ \<Rightarrow> False)"

text \<open>The six fields the evaluator reads are numbers or absent.\<close>

definition fraud_fields_plain :: "applicantData \<Rightarrow> bool" where
  "fraud_fields_plain a =
     (number_or_absent (annualIncome a) \<and> number_or_absent (employmentLength a) \<and>
      number_or_absent (timeAtAddress a) \<and> number_or_absent (age a) \<and>
      number_or_absent (creditScore a) \<and> number_or_absent (recentInquiries a))"

text \<open>Scenario D of the specification.\<close>

definition scenario_D :: applicantData where
  "scenario_D =
     empty_applicant \<lparr> annualIncome := Number 250000, employmentLength := Number 0.5,
                       recentInquiries := Number 6 \<rparr>"

text \<open>An applicant whose time at the address and age are \<open>null\<close>.\<close>

definition null_applicant :: applicantData where
  "null_applicant =
     empty_applicant \<lparr> creditScore := Number 800, timeAtAddress := Null, age := Null \<rparr>"

section \<open>The scoring engine\<close>

record engine =
  isModelLoaded :: bool

text \<open>\<open>initializeModel\<close> of the demo engine only sets the flag.\<close>

definition initializeModel :: "engine \<Rightarrow> engine" where
  "initializeModel e = e \<lparr> isModelLoaded := True \<rparr>"

record factor_record =
  factor :: string
  impact :: string
  factor_description :: string

record recommendation_record =
  rec_type :: string
  priority :: string
  rec_description :: string
  rec_action :: string

record prediction =
  pred_creditScore :: jsnum
  pred_riskLevel :: risk_level
  probability :: jsnum
  recommendations :: "recommendation_record list"
  factors :: "factor_record list"
  pred_timestamp :: int
  modelVersion :: string

definition calculateRiskLevel :: "jsnum \<Rightarrow> risk_level" where
  "calculateRiskLevel cs =
     (if jge cs 750 then LOW
      else if jge cs 650 then MEDIUM
      else if jge cs 550 then HIGH
      else VERY_HIGH)"

text \<open>\<open>features[i]\<close>: reading past the end gives \<open>undefined\<close>.\<close>

definition feature_at :: "jsval list \<Rightarrow> nat \<Rightarrow> jsval" where
  "feature_at fs i = (if i < length fs then fs ! i else Undefined)"

text \<open>One \<open>if (condition) factors.push(record)\<close> of the source.\<close>

definition push_if :: "js_error + bool \<Rightarrow> 'a \<Rightarrow> 'a list \<Rightarrow> js_error + 'a list" where
  "push_if cond x xs = and_then cond (\<lambda>c. Inr (if c then push xs x else xs))"

definition analyzeFactors ::
    "applicantData option \<Rightarrow> jsval list \<Rightarrow> js_error + factor_record list" where
  "analyzeFactors applicantData features =
     and_then (push_if (js_lt (feature_at features 0) 0.6)
                 \<lparr> factor = ''Credit Score'', impact = ''NEGATIVE'',
                   factor_description = ''Credit score below optimal range'' \<rparr> []) (\<lambda>fl.
     and_then (push_if (js_gt (feature_at features 1) 0.8)
                 \<lparr> factor = ''Income'', impact = ''POSITIVE'',
                   factor_description = ''High annual income'' \<rparr> fl) (\<lambda>fl.
     and_then (push_if (js_gt (feature_at features 2) 0.4)
                 \<lparr> factor = ''Debt-to-Income'', impact = ''NEGATIVE'',
                   factor_description = ''High debt-to-income ratio'' \<rparr> fl) (\<lambda>fl.
     and_then (push_if (js_gt (feature_at features 6) 0.9)
                 \<lparr> factor = ''Payment History'', impact = ''POSITIVE'',
                   factor_description = ''Excellent payment history'' \<rparr> fl) (\<lambda>fl.
     push_if (js_gt (feature_at features 7) 0.7)
                 \<lparr> factor = ''Credit Utilization'', impact = ''NEGATIVE'',
                   factor_description = ''High credit utilization'' \<rparr> fl))))"

definition generateRecommendations ::
    "applicantData option \<Rightarrow> jsnum \<Rightarrow> js_error + recommendation_record list" where
  "generateRecommendations applicantData cs =
     and_then (push_if (Inr (jlt cs 650))
                 \<lparr> rec_type = ''IMPROVEMENT'', priority = ''HIGH'',
                   rec_description = ''Consider requiring a co-signer or additional collateral'',
                   rec_action = ''REQUEST_COSIGNER'' \<rparr> []) (\<lambda>rl.
     and_then (push_if (case applicantData of
                          None \<Rightarrow> Inl TypeError
                        | Some a \<Rightarrow> js_gt (debtToIncomeRatio a) 0.4)
                 \<lparr> rec_type = ''RISK_MITIGATION'', priority = ''MEDIUM'',
                   rec_description = ''High debt-to-income ratio - consider smaller loan amount'',
                   rec_action = ''REDUCE_LOAN_AMOUNT'' \<rparr> rl) (\<lambda>rl.
     push_if (Inr (jge cs 750))
                 \<lparr> rec_type = ''APPROVAL'', priority = ''LOW'',
                   rec_description = ''Excellent credit profile - approve with standard terms'',
                   rec_action = ''APPROVE_STANDARD'' \<rparr> rl))"

text \<open>
  Both engines wrap the body of \<open>predictCreditScore\<close> in \<open>try { ... } catch (error) {
  log; throw error }\<close>: what the body raises is raised by the method.
\<close>

subsection \<open>The engine backed by the neural network\<close>

text \<open>
  The trained network is a collaborator: \<open>net\<close> stands for \<open>model.predict\<close>, giving the
  output \<open>score[0]\<close> of the final sigmoid unit for a feature vector, or what the tensor
  library raises.
\<close>

definition predictCreditScore ::
    "engine \<Rightarrow> (jsval list \<Rightarrow> js_error + jsnum) \<Rightarrow> int \<Rightarrow> applicantData option \<Rightarrow>
     js_error + prediction" where
  "predictCreditScore e net now applicantData =
     (if \<not> isModelLoaded e then Inl Model_not_loaded
      else
        and_then (preprocessFeatures applicantData) (\<lambda>features.
        and_then (net features) (\<lambda>score0.
          let cs = math_round (jadd (jmul score0 (Num 850)) (Num 300));
              rl = calculateRiskLevel cs
          in and_then (generateRecommendations applicantData cs) (\<lambda>recs.
             and_then (analyzeFactors applicantData features) (\<lambda>fl.
               Inr \<lparr> pred_creditScore = cs, pred_riskLevel = rl, probability = score0,
                     recommendations = recs, factors = fl,
                     pred_timestamp = now, modelVersion = ''1.0.0'' \<rparr>)))))"

subsection \<open>The demo engine\<close>

definition weights :: "real list" where
  "weights = [0.30, 0.20, -0.20, 0.10, -0.05, 0.05, 0.15, -0.15, 0.05, -0.10, 0.10, 0.15]"

text \<open>
  The loop \<open>for (i = 0; i < features.length; i++) score += features[i] * weights[i]\<close>:
  the feature is converted to a number, which raises for a value that cannot be converted;
  past the twelfth weight \<open>weights[i]\<close> is \<open>undefined\<close> and the product is \<open>NaN\<close>.
\<close>

fun weighted_sum :: "jsval list \<Rightarrow> real list \<Rightarrow> jsnum \<Rightarrow> js_error + jsnum" where
  "weighted_sum [] ws score = Inr score"
| "weighted_sum (f # fs) [] score =
     and_then (to_number f) (\<lambda>n. weighted_sum fs [] (jadd score (jmul n NaN)))"
| "weighted_sum (f # fs) (w # ws) score =
     and_then (to_number f) (\<lambda>n. weighted_sum fs ws (jadd score (jmul n (Num w))))"

text \<open>\<open>1 / (1 + Math.exp(-score * 2))\<close>\<close>

fun sigmoid :: "jsnum \<Rightarrow> jsnum" where
  "sigmoid (Num s) = Num (1 / (1 + exp (- s * 2)))"
| "sigmoid NaN = NaN"

text \<open>\<open>rnd\<close> is the value \<open>Math.random()\<close> returns.\<close>

definition calculateCreditScoreDemo :: "jsval list \<Rightarrow> real \<Rightarrow> js_error + jsnum" where
  "calculateCreditScoreDemo features rnd =
     and_then (weighted_sum features weights (Num 0)) (\<lambda>score.
       let score = sigmoid score;
           score = jadd score (Num ((rnd - 0.5) * 0.1))
       in Inr (math_max (Num 0) (math_min (Num 1) score)))"

definition predictCreditScoreDemo ::
    "engine \<Rightarrow> real \<Rightarrow> int \<Rightarrow> applicantData option \<Rightarrow> js_error + prediction" where
  "predictCreditScoreDemo e rnd now applicantData =
     (if \<not> isModelLoaded e then Inl Model_not_loaded
      else
        and_then (preprocessFeatures applicantData) (\<lambda>features.
        and_then (calculateCreditScoreDemo features rnd) (\<lambda>score.
          let cs = math_round (jadd (jmul score (Num 550)) (Num 300));
              rl = calculateRiskLevel cs
          in and_then (generateRecommendations applicantData cs) (\<lambda>recs.
             and_then (analyzeFactors applicantData features) (\<lambda>fl.
               Inr \<lparr> pred_creditScore = cs, pred_riskLevel = rl, probability = score,
                     recommendations = recs, factors = fl,
                     pred_timestamp = now, modelVersion = ''1.0.0-demo'' \<rparr>)))))"

section \<open>Actors and permissions\<close>

record permission =
  resource :: string
  actions :: "string list"

record user =
  user_id :: nat
  role :: string
  permissions :: "permission list"

text \<open>
  Modelled from the spec: \<open>hasPermission\<close> is a method of the user model, which is not among
  the sources.  Section 4.1: each actor carries an explicit grant list; a grant matches if
  the resource is equal and the action is contained in the grant's action set.
\<close>

definition hasPermission :: "user \<Rightarrow> string \<Rightarrow> string \<Rightarrow> bool" where
  "hasPermission u res act =
     list_ex (\<lambda>g. resource g = res \<and> act \<in> set (actions g)) (permissions u)"

definition permissionSets :: "(string \<times> permission list) list" where
  "permissionSets =
     [(''admin'',
        [\<lparr> resource = ''applications'',
            actions = [''create'', ''read'', ''update'', ''delete'', ''approve''] \<rparr>,
         \<lparr> resource = ''users'', actions = [''create'', ''read'', ''update'', ''delete''] \<rparr>,
         \<lparr> resource = ''reports'', actions = [''create'', ''read'', ''update'', ''delete''] \<rparr>,
         \<lparr> resource = ''settings'', actions = [''read'', ''update''] \<rparr>]),
      (''underwriter'',
        [\<lparr> resource = ''applications'', actions = [''read'', ''update'', ''approve''] \<rparr>,
         \<lparr> resource = ''reports'', actions = [''read''] \<rparr>]),
      (''analyst'',
        [\<lparr> resource = ''applications'', actions = [''create'', ''read'', ''update''] \<rparr>,
         \<lparr> resource = ''reports'', actions = [''read''] \<rparr>]),
      (''viewer'',
        [\<lparr> resource = ''applications'', actions = [''read''] \<rparr>,
         \<lparr> resource = ''reports'', actions = [''read''] \<rparr>])]"

text \<open>
  \<open>permissionSets[role] || permissionSets.viewer\<close>: an own property is an array, which is
  truthy; so is a member inherited from \<open>Object.prototype\<close>, which is returned as it is.
\<close>

datatype default_permissions = Grant_list "permission list" | Prototype_object string

definition getDefaultPermissions :: "string \<Rightarrow> default_permissions" where
  "getDefaultPermissions r =
     (case js_get permissionSets r of
        Own gs \<Rightarrow> Grant_list gs
      | Inherited k \<Rightarrow> Prototype_object k
      | Undefined_property \<Rightarrow>
          (case js_get permissionSets ''viewer'' of
             Own gs \<Rightarrow> Grant_list gs
           | Inherited k \<Rightarrow> Prototype_object k
           | Undefined_property \<Rightarrow> Grant_list []))"

text \<open>
  The registration handler, as far as it fixes the role and the grants of the user it
  creates: \<open>role || 'analyst'\<close> takes the default when the field is absent or empty.
\<close>

definition role_or_analyst :: "string option \<Rightarrow> string" where
  "role_or_analyst r = (case r of None \<Rightarrow> ''analyst'' | Some s \<Rightarrow> if s = [] then ''analyst'' else s)"

definition register_defaults :: "string option \<Rightarrow> string \<times> default_permissions" where
  "register_defaults r =
     (let defaultPermissions = getDefaultPermissions (role_or_analyst r)
      in (role_or_analyst r, defaultPermissions))"

text \<open>The grants the specification words for each role, and what a grant list allows.\<close>

definition allows :: "default_permissions \<Rightarrow> string \<Rightarrow> string \<Rightarrow> bool" where
  "allows d res act =
     (case d of
        Grant_list gs \<Rightarrow> list_ex (\<lambda>g. resource g = res \<and> act \<in> set (actions g)) gs
      | Prototype_object k \<Rightarrow> False)"

definition crud_approve :: "string list" where
  "crud_approve = [''create'', ''read'', ''update'', ''delete'', ''approve'']"

definition all_resources :: "string list" where
  "all_resources = [''applications'', ''users'', ''reports'', ''settings'']"

section \<open>Applications and their audit trail\<close>

datatype status =
  draft | submitted | under_review | pending_documents | approved | denied | withdrawn

record request_context =
  ip :: string
  userAgent :: string

datatype audit_details =
    Updated_details "string list" status
  | Submitted_details int
  | Assigned_details "string option" int
  | Note_details "string option" nat
  | Analysis_details jsnum risk_level risk_level

record audit_entry =
  action :: string
  performedBy :: nat
  entry_timestamp :: int
  details :: audit_details
  requestContext :: request_context

record review_note =
  note_text :: string
  category :: string
  createdBy :: nat
  createdAt :: int

record manual_review =
  assignedTo :: "string option"
  assignedAt :: "int option"
  reviewNotes :: "review_note list"

record full_assessment =
  scoring :: prediction
  fraudAssessment :: fraud_assessment
  assessed_applicationId :: "string option"
  processedBy :: nat
  processedAt :: int

record applicant_info =
  dateOfBirth :: "int option"
  employment_annualIncome :: jsval
  employment_employmentLength :: jsval
  address_timeAtAddress :: jsval

record loan_info =
  amount :: jsval
  purpose :: jsval
  loan_term :: jsval
  collateral_value :: jsval

record financial_info =
  fin_creditScore :: jsval
  fin_debtToIncomeRatio :: jsval
  fin_paymentHistoryScore :: jsval
  fin_creditUtilization :: jsval
  fin_numberOfAccounts :: jsval
  fin_recentInquiries :: jsval

record application =
  doc_id :: string
  applicationId :: string
  status :: status
  applicant :: applicant_info
  loan :: loan_info
  financial :: financial_info
  aiAssessment :: "full_assessment option"
  manualReview :: manual_review
  submittedAt :: "int option"
  auditTrail :: "audit_entry list"

text \<open>
  Modelled from the spec: \<open>addAuditEntry\<close> is a method of the application model, which is
  not among the sources.  Section 4.6: a pure append of one entry
  \<open>{action, performedBy, timestamp, details, requestContext}\<close>.
\<close>

definition addAuditEntry ::
    "string \<Rightarrow> user \<Rightarrow> audit_details \<Rightarrow> request_context \<Rightarrow> int \<Rightarrow> application \<Rightarrow> application" where
  "addAuditEntry act u d ctx now app =
     app \<lparr> auditTrail :=
             push (auditTrail app)
               \<lparr> action = act, performedBy = user_id u, entry_timestamp = now, details = d,
                 requestContext = ctx \<rparr> \<rparr>"

subsection \<open>The store\<close>

text \<open>
  \<open>findOne({$or: [{_id: id}, {applicationId: id}]})\<close> returns the first document that
  matches; \<open>save\<close> writes the document back under its \<open>_id\<close>.
\<close>

definition findOne :: "application list \<Rightarrow> string \<Rightarrow> application option" where
  "findOne db pid = find (\<lambda>d. doc_id d = pid \<or> applicationId d = pid) db"

definition findOne_by_applicationId :: "application list \<Rightarrow> string \<Rightarrow> application option" where
  "findOne_by_applicationId db aid = find (\<lambda>d. applicationId d = aid) db"

definition save :: "application \<Rightarrow> application list \<Rightarrow> application list" where
  "save app db = map (\<lambda>d. if doc_id d = doc_id app then app else d) db"

subsection \<open>Middleware\<close>

datatype response = Success nat | Failure nat string

fun is_failure :: "response \<Rightarrow> bool" where
  "is_failure (Failure c m) = True"
| "is_failure (Success c) = False"

definition checkPermission :: "string \<Rightarrow> string \<Rightarrow> user option \<Rightarrow> response + user" where
  "checkPermission res act req_user =
     (case req_user of
        None \<Rightarrow> Inl (Failure 401 ''User not authenticated'')
      | Some u \<Rightarrow>
          if \<not> hasPermission u res act
          then Inl (Failure 403 (''Permission denied. Required: '' @ act @ '' on '' @ res))
          else Inr u)"

definition authorize :: "string list \<Rightarrow> user option \<Rightarrow> response + user" where
  "authorize roles req_user =
     (case req_user of
        None \<Rightarrow> Inl (Failure 401 ''User not authenticated'')
      | Some u \<Rightarrow>
          if role u \<notin> set roles
          then Inl (Failure 403
                 (''User role '' @ [CHR 0x27] @ role u @ [CHR 0x27] @
                  '' is not authorized to access this resource''))
          else Inr u)"

subsection \<open>\<open>PUT /applications/:id\<close>: field update\<close>

text \<open>
  The request body is an object whose keys are copied onto the document by
  \<open>Object.assign(application, req.body)\<close>.  A key outside the modelled fields is carried
  by name only.
\<close>

datatype field_update =
    Set_status status
  | Set_applicant applicant_info
  | Set_loan loan_info
  | Set_financial financial_info
  | Set_aiAssessment "full_assessment option"
  | Set_manualReview manual_review
  | Set_submittedAt "int option"
  | Set_auditTrail "audit_entry list"
  | Set_other string

fun field_key :: "field_update \<Rightarrow> string" where
  "field_key (Set_status v) = ''status''"
| "field_key (Set_applicant v) = ''applicant''"
| "field_key (Set_loan v) = ''loan''"
| "field_key (Set_financial v) = ''financial''"
| "field_key (Set_aiAssessment v) = ''aiAssessment''"
| "field_key (Set_manualReview v) = ''manualReview''"
| "field_key (Set_submittedAt v) = ''submittedAt''"
| "field_key (Set_auditTrail v) = ''auditTrail''"
| "field_key (Set_other k) = k"

fun assign_field :: "application \<Rightarrow> field_update \<Rightarrow> application" where
  "assign_field app (Set_status v) = app \<lparr> status := v \<rparr>"
| "assign_field app (Set_applicant v) = app \<lparr> applicant := v \<rparr>"
| "assign_field app (Set_loan v) = app \<lparr> loan := v \<rparr>"
| "assign_field app (Set_financial v) = app \<lparr> financial := v \<rparr>"
| "assign_field app (Set_aiAssessment v) = app \<lparr> aiAssessment := v \<rparr>"
| "assign_field app (Set_manualReview v) = app \<lparr> manualReview := v \<rparr>"
| "assign_field app (Set_submittedAt v) = app \<lparr> submittedAt := v \<rparr>"
| "assign_field app (Set_auditTrail v) = app \<lparr> auditTrail := v \<rparr>"
| "assign_field app (Set_other k) = app"

definition object_assign :: "application \<Rightarrow> field_update list \<Rightarrow> application" where
  "object_assign app body = foldl assign_field app body"

definition put_application ::
    "user option \<Rightarrow> string \<Rightarrow> field_update list \<Rightarrow> request_context \<Rightarrow> int \<Rightarrow>
     application list \<Rightarrow> response \<times> application list" where
  "put_application req_user pid body ctx now db =
     (case checkPermission ''applications'' ''update'' req_user of
        Inl r \<Rightarrow> (r, db)
      | Inr u \<Rightarrow>
          (case findOne db pid of
             None \<Rightarrow> (Failure 404 ''Application not found'', db)
           | Some app \<Rightarrow>
               if status app \<in> set [approved, denied]
               then (Failure 400 ''Cannot update application that has been finalized'', db)
               else
                 let updatedFields = map field_key body;
                     app = object_assign app body;
                     app = addAuditEntry ''application_updated'' u
                             (Updated_details updatedFields (status app)) ctx now app
                 in (Success 200, save app db)))"

subsection \<open>\<open>POST /applications/:id/submit\<close>\<close>

definition post_application_submit ::
    "user option \<Rightarrow> string \<Rightarrow> request_context \<Rightarrow> int \<Rightarrow>
     application list \<Rightarrow> response \<times> application list" where
  "post_application_submit req_user pid ctx now db =
     (case checkPermission ''applications'' ''update'' req_user of
        Inl r \<Rightarrow> (r, db)
      | Inr u \<Rightarrow>
          (case findOne db pid of
             None \<Rightarrow> (Failure 404 ''Application not found'', db)
           | Some app \<Rightarrow>
               if status app \<noteq> draft
               then (Failure 400 ''Only draft applications can be submitted'', db)
               else
                 let app = app \<lparr> status := submitted \<rparr>;
                     app = app \<lparr> submittedAt := Some now \<rparr>;
                     app = addAuditEntry ''application_submitted'' u
                             (Submitted_details now) ctx now app
                 in (Success 200, save app db)))"

subsection \<open>\<open>POST /applications/:id/assign\<close>\<close>

definition post_application_assign ::
    "user option \<Rightarrow> string \<Rightarrow> string option \<Rightarrow> request_context \<Rightarrow> int \<Rightarrow>
     application list \<Rightarrow> response \<times> application list" where
  "post_application_assign req_user pid assigneeId ctx now db =
     (case authorize [''admin'', ''underwriter''] req_user of
        Inl r \<Rightarrow> (r, db)
      | Inr u \<Rightarrow>
          (case findOne db pid of
             None \<Rightarrow> (Failure 404 ''Application not found'', db)
           | Some app \<Rightarrow>
               let app = app \<lparr> manualReview := (manualReview app) \<lparr> assignedTo := assigneeId \<rparr> \<rparr>;
                   app = app \<lparr> manualReview := (manualReview app) \<lparr> assignedAt := Some now \<rparr> \<rparr>;
                   app = app \<lparr> status := under_review \<rparr>;
                   app = addAuditEntry ''application_assigned'' u
                           (Assigned_details assigneeId now) ctx now app
               in (Success 200, save app db)))"

subsection \<open>\<open>POST /applications/:id/notes\<close>\<close>

text \<open>A string is falsy when it is absent or empty; \<open>category || 'general'\<close>.\<close>

definition string_truthy :: "string option \<Rightarrow> bool" where
  "string_truthy s = (s \<noteq> None \<and> s \<noteq> Some [])"

definition post_application_notes ::
    "user option \<Rightarrow> string \<Rightarrow> string option \<Rightarrow> string option \<Rightarrow> request_context \<Rightarrow> int \<Rightarrow>
     application list \<Rightarrow> response \<times> application list" where
  "post_application_notes req_user pid note cat ctx now db =
     (case checkPermission ''applications'' ''update'' req_user of
        Inl r \<Rightarrow> (r, db)
      | Inr u \<Rightarrow>
          if \<not> string_truthy note then (Failure 400 ''Note content is required'', db)
          else
            (case findOne db pid of
               None \<Rightarrow> (Failure 404 ''Application not found'', db)
             | Some app \<Rightarrow>
                 let reviewNote = \<lparr> note_text = the note,
                                    category = (if string_truthy cat then the cat else ''general''),
                                    createdBy = user_id u, createdAt = now \<rparr>;
                     app = app \<lparr> manualReview := (manualReview app)
                                  \<lparr> reviewNotes := push (reviewNotes (manualReview app)) reviewNote \<rparr> \<rparr>;
                     app = addAuditEntry ''review_note_added'' u
                             (Note_details cat (length (the note))) ctx now app
                 in (Success 201, save app db)))"

subsection \<open>\<open>POST /api/ai/analyze\<close>\<close>

text \<open>The conversion of a stored application to the data the engine reads.\<close>

definition dataToAnalyze :: "application \<Rightarrow> int \<Rightarrow> applicantData" where
  "dataToAnalyze app now =
     \<lparr> applicant_id = Some (doc_id app),
       creditScore = fin_creditScore (financial app),
       annualIncome = employment_annualIncome (applicant app),
       debtToIncomeRatio = fin_debtToIncomeRatio (financial app),
       employmentLength = js_or (employment_employmentLength (applicant app)) (Number 0),
       loanAmount = amount (loan app),
       loanTerm = loan_term (loan app),
       paymentHistoryScore = js_or (fin_paymentHistoryScore (financial app)) (Number 80),
       creditUtilization = js_or (fin_creditUtilization (financial app)) (Number 0.3),
       numberOfAccounts = js_or (fin_numberOfAccounts (financial app)) (Number 5),
       recentInquiries = js_or (fin_recentInquiries (financial app)) (Number 1),
       collateralValue = js_or (collateral_value (loan app)) (Number 0),
       loanPurpose = purpose (loan app),
       timeAtAddress = js_or (address_timeAtAddress (applicant app)) (Number 12),
       age = (case dateOfBirth (applicant app) of
                None \<Rightarrow> Number 35
              | Some dob \<Rightarrow> Number (of_int \<lfloor>(of_int (now - dob) :: real) / 31557600000\<rfloor>)) \<rparr>"

text \<open>
  \<open>predict\<close> is the engine's \<open>predictCreditScore\<close>; an error that it or the fraud
  evaluation raises is caught and answered with status 500.  The \<open>applicantData\<close> of
  the body counts when it is truthy, and is then an object.
\<close>

definition post_ai_analyze ::
    "user option \<Rightarrow> string option \<Rightarrow> applicantData option \<Rightarrow> engine \<Rightarrow>
     (applicantData option \<Rightarrow> js_error + prediction) \<Rightarrow> request_context \<Rightarrow> int \<Rightarrow>
     application list \<Rightarrow> response \<times> application list" where
  "post_ai_analyze req_user aid applicantData e predict ctx now db =
     (case checkPermission ''applications'' ''read'' req_user of
        Inl r \<Rightarrow> (r, db)
      | Inr u \<Rightarrow>
          if \<not> string_truthy aid \<and> applicantData = None
          then (Failure 400 ''Either applicationId or applicantData is required'', db)
          else if string_truthy aid \<and> findOne_by_applicationId db (the aid) = None
          then (Failure 404 ''Application not found'', db)
          else
            let application = (if string_truthy aid
                               then findOne_by_applicationId db (the aid) else None);
                dta = (case application of
                         Some app \<Rightarrow> Some (dataToAnalyze app now)
                       | None \<Rightarrow> applicantData)
            in if \<not> isModelLoaded e
               then (Failure 503 ''AI model is not available. Please try again later.'', db)
               else
                 (case predict dta of
                    Inl err \<Rightarrow> (Failure 500 ''AI analysis failed'', db)
                  | Inr aiAssess \<Rightarrow>
                      (case evaluateFraudRisk dta of
                         Inl err \<Rightarrow> (Failure 500 ''AI analysis failed'', db)
                       | Inr fraudAssess \<Rightarrow>
                           let fullAssessment =
                                 \<lparr> scoring = aiAssess, fraudAssessment = fraudAssess,
                                   assessed_applicationId = aid, processedBy = user_id u,
                                   processedAt = now \<rparr>
                           in (case application of
                                 None \<Rightarrow> (Success 200, db)
                               | Some app \<Rightarrow>
                                   let app = app \<lparr> aiAssessment := Some fullAssessment \<rparr>;
                                       app = addAuditEntry ''ai_analysis_completed'' u
                                               (Analysis_details (pred_creditScore aiAssess)
                                                  (pred_riskLevel aiAssess)
                                                  (fraud_riskLevel fraudAssess))
                                               ctx now app
                                   in (Success 200, save app db)))))"

subsection \<open>The router\<close>

text \<open>
  The five state-changing requests and the handler the router gives each to.  The analysis
  request names its application in the body, not in the path.
\<close>

datatype request =
    Update "field_update list"
  | Submit
  | Assign "string option"
  | Add_note "string option" "string option"
  | Analyze "string option" "applicantData option"

fun is_update :: "request \<Rightarrow> bool" where
  "is_update (Update body) = True"
| "is_update rq = False"

fun is_assign :: "request \<Rightarrow> bool" where
  "is_assign (Assign assignee) = True"
| "is_assign rq = False"

text \<open>The request is a field update whose body carries the given status.\<close>

fun carries_status :: "request \<Rightarrow> status \<Rightarrow> bool" where
  "carries_status (Update body) s = (Set_status s \<in> set body)"
| "carries_status rq s = False"

fun router ::
    "engine \<Rightarrow> (applicantData option \<Rightarrow> js_error + prediction) \<Rightarrow> request \<Rightarrow>
     user option \<Rightarrow>
     string \<Rightarrow> request_context \<Rightarrow> int \<Rightarrow> application list \<Rightarrow> response \<times> application list" where
  "router e predict (Update body) ru pid ctx now db = put_application ru pid body ctx now db"
| "router e predict Submit ru pid ctx now db = post_application_submit ru pid ctx now db"
| "router e predict (Assign assignee) ru pid ctx now db =
     post_application_assign ru pid assignee ctx now db"
| "router e predict (Add_note note cat) ru pid ctx now db =
     post_application_notes ru pid note cat ctx now db"
| "router e predict (Analyze aid dta) ru pid ctx now db =
     post_ai_analyze ru aid dta e predict ctx now db"

text \<open>
  The status changes between two states of the store: the pairs of old and new status of
  the documents, position by position, that differ.
\<close>

definition transitions :: "application list \<Rightarrow> application list \<Rightarrow> (status \<times> status) list" where
  "transitions db db' = filter (\<lambda>(s, s'). s \<noteq> s') (zip (map status db) (map status db'))"

text \<open>
  The two reasons the specification gives for rejecting an attempt: the actor lacks what the
  route requires, or the action is not legal from the current status.
\<close>

fun lacks_permission :: "request \<Rightarrow> user option \<Rightarrow> bool" where
  "lacks_permission rq None = True"
| "lacks_permission (Update body) (Some u) = (\<not> hasPermission u ''applications'' ''update'')"
| "lacks_permission Submit (Some u) = (\<not> hasPermission u ''applications'' ''update'')"
| "lacks_permission (Assign assignee) (Some u) = (role u \<notin> set [''admin'', ''underwriter''])"
| "lacks_permission (Add_note note cat) (Some u) = (\<not> hasPermission u ''applications'' ''update'')"
| "lacks_permission (Analyze aid dta) (Some u) = (\<not> hasPermission u ''applications'' ''read'')"

fun illegal_from :: "request \<Rightarrow> status \<Rightarrow> bool" where
  "illegal_from (Update body) s = (s \<in> set [approved, denied])"
| "illegal_from Submit s = (s \<noteq> draft)"
| "illegal_from rq s = False"

section \<open>The feature contract as the specification words it\<close>

text \<open>
  Section 4.2 of the specification: each numeric feature is the raw value, or the stated
  default when the value is missing, divided by the stated divisor; the extractor takes
  \<open>null\<close> and a present zero for a missing value as well.
\<close>

definition value_or_default :: "jsval \<Rightarrow> real \<Rightarrow> real" where
  "value_or_default x d = (case x of Number v \<Rightarrow> if v = 0 then d else v | _ \<Rightarrow> d)"

definition spec_numeric_features :: "applicantData \<Rightarrow> real list" where
  "spec_numeric_features a =
     [value_or_default (creditScore a) 600 / 800,
      value_or_default (annualIncome a) 50000 / 200000,
      value_or_default (debtToIncomeRatio a) 0.3,
      value_or_default (employmentLength a) 2 / 20,
      value_or_default (loanAmount a) 50000 / 500000,
      value_or_default (loanTerm a) 15 / 30,
      value_or_default (paymentHistoryScore a) 80 / 100,
      value_or_default (creditUtilization a) 0.3,
      value_or_default (numberOfAccounts a) 5 / 20,
      value_or_default (recentInquiries a) 2 / 10,
      value_or_default (collateralValue a) 0 / 1000000]"

definition spec_category_table :: "(string \<times> real) list" where
  "spec_category_table =
     [(''home_purchase'', 9), (''home_improvement'', 8), (''education'', 8), (''auto_loan'', 7),
      (''medical'', 7), (''debt_consolidation'', 6), (''business'', 5), (''other'', 5),
      (''vacation'', 3)]"

definition spec_category_score :: "jsval \<Rightarrow> real" where
  "spec_category_score p =
     (case p of
        Text c n \<Rightarrow> (case map_of spec_category_table c of Some v \<Rightarrow> v | None \<Rightarrow> 5)
      | _ \<Rightarrow> 5)"

definition in_unit :: "jsval \<Rightarrow> bool" where
  "in_unit f = (case f of Number r \<Rightarrow> 0 \<le> r \<and> r \<le> 1 | _ \<Rightarrow> False)"

text \<open>A numeric field that is absent, \<open>null\<close> or a number.\<close>

definition number_or_missing :: "jsval \<Rightarrow> bool" where
  "number_or_missing x =
     (case x of Undefined \<Rightarrow> True | Null \<Rightarrow> True | Number v \<Rightarrow> True | _ \<Rightarrow> False)"

definition numeric_fields :: "applicantData \<Rightarrow> bool" where
  "numeric_fields a =
     (number_or_missing (creditScore a) \<and> number_or_missing (annualIncome a) \<and>
      number_or_missing (debtToIncomeRatio a) \<and> number_or_missing (employmentLength a) \<and>
      number_or_missing (loanAmount a) \<and> number_or_missing (loanTerm a) \<and>
      number_or_missing (paymentHistoryScore a) \<and> number_or_missing (creditUtilization a) \<and>
      number_or_missing (numberOfAccounts a) \<and> number_or_missing (recentInquiries a) \<and>
      number_or_missing (collateralValue a))"

text \<open>
  A loan purpose that is absent, or a string that is not the name of a member of
  \<open>Object.prototype\<close>.
\<close>

definition plain_purpose :: "jsval \<Rightarrow> bool" where
  "plain_purpose p =
     (case p of
        Undefined \<Rightarrow> True
      | Text c n \<Rightarrow> c \<notin> set object_prototype_keys
      | _ \<Rightarrow> False)"

definition raw_within :: "jsval \<Rightarrow> real \<Rightarrow> bool" where
  "raw_within x hi = (case x of Number v \<Rightarrow> 0 \<le> v \<and> v \<le> hi | _ \<Rightarrow> True)"

text \<open>Every raw input that is a number lies between zero and the divisor of its feature.\<close>

definition raw_in_range :: "applicantData \<Rightarrow> bool" where
  "raw_in_range a =
     (raw_within (creditScore a) 800 \<and> raw_within (annualIncome a) 200000 \<and>
      raw_within (debtToIncomeRatio a) 1 \<and> raw_within (employmentLength a) 20 \<and>
      raw_within (loanAmount a) 500000 \<and> raw_within (loanTerm a) 30 \<and>
      raw_within (paymentHistoryScore a) 100 \<and> raw_within (creditUtilization a) 1 \<and>
      raw_within (numberOfAccounts a) 20 \<and> raw_within (recentInquiries a) 10 \<and>
      raw_within (collateralValue a) 1000000)"

definition is_integer_between :: "jsnum \<Rightarrow> int \<Rightarrow> int \<Rightarrow> bool" where
  "is_integer_between x lo hi =
     (case x of Num r \<Rightarrow> r = of_int \<lfloor>r\<rfloor> \<and> of_int lo \<le> r \<and> r \<le> of_int hi | NaN \<Rightarrow> False)"

section \<open>When the demo engine raises\<close>

text \<open>
  A value converts to a primitive unless it is an object with a \<open>toString\<close> property of
  its own or an array whose join raises.
\<close>

fun convertible :: "jsval \<Rightarrow> bool" where
  "convertible (Array_value None) = False"
| "convertible (Object_value own_toString) = (\<not> own_toString)"
| "convertible v = True"

text \<open>The twelve fields that a prediction converts to a number or to a property key.\<close>

definition scoring_fields :: "applicantData \<Rightarrow> jsval list" where
  "scoring_fields a =
     [creditScore a, annualIncome a, debtToIncomeRatio a, employmentLength a, loanAmount a,
      loanTerm a, paymentHistoryScore a, creditUtilization a, numberOfAccounts a,
      recentInquiries a, collateralValue a, loanPurpose a]"

definition scoring_raises :: "applicantData option \<Rightarrow> bool" where
  "scoring_raises applicantData =
     (case applicantData of
        None \<Rightarrow> True
      | Some a \<Rightarrow> \<not> list_all convertible (scoring_fields a))"

text \<open>The fields that the feature extractor itself converts.\<close>

definition extractor_fields :: "applicantData \<Rightarrow> jsval list" where
  "extractor_fields a =
     [creditScore a, annualIncome a, employmentLength a, loanAmount a, loanTerm a,
      paymentHistoryScore a, numberOfAccounts a, recentInquiries a, collateralValue a,
      loanPurpose a]"

text \<open>One feature of the vector the extractor returns, or the error it raises.\<close>

definition feature_of :: "js_error + jsval list \<Rightarrow> nat \<Rightarrow> js_error + jsval" where
  "feature_of r i = (case r of Inl e \<Rightarrow> Inl e | Inr fs \<Rightarrow> Inr (fs ! i))"

section \<open>Concrete actors and applications\<close>

definition some_context :: request_context where
  "some_context = \<lparr> ip = ''10.0.0.1'', userAgent = ''curl'' \<rparr>"

definition user_of_role :: "nat \<Rightarrow> string \<Rightarrow> user" where
  "user_of_role n r =
     \<lparr> user_id = n, role = r,
       permissions = (case getDefaultPermissions r of
                        Grant_list gs \<Rightarrow> gs | Prototype_object k \<Rightarrow> []) \<rparr>"

definition blank_application :: "string \<Rightarrow> status \<Rightarrow> application" where
  "blank_application i st =
     \<lparr> doc_id = i, applicationId = ''APP-'' @ i, status = st,
       applicant = \<lparr> dateOfBirth = None, employment_annualIncome = Undefined,
                     employment_employmentLength = Undefined,
                     address_timeAtAddress = Undefined \<rparr>,
       loan = \<lparr> amount = Undefined, purpose = Undefined, loan_term = Undefined,
                collateral_value = Undefined \<rparr>,
       financial = \<lparr> fin_creditScore = Undefined, fin_debtToIncomeRatio = Undefined,
                     fin_paymentHistoryScore = Undefined, fin_creditUtilization = Undefined,
                     fin_numberOfAccounts = Undefined, fin_recentInquiries = Undefined \<rparr>,
       aiAssessment = None,
       manualReview = \<lparr> assignedTo = None, assignedAt = None, reviewNotes = [] \<rparr>,
       submittedAt = None, auditTrail = [] \<rparr>"

definition typical_applicant :: applicantData where
  "typical_applicant =
     empty_applicant \<lparr> creditScore := Number 720, annualIncome := Number 85000,
                       debtToIncomeRatio := Number 0.25, loanAmount := Number 20000,
                       loanPurpose := Text ''vacation'' NaN \<rparr>"

text \<open>An applicant whose credit score is the JSON object \<open>{"toString": 1}\<close>.\<close>

definition unconvertible_applicant :: applicantData where
  "unconvertible_applicant = empty_applicant \<lparr> creditScore := Object_value True \<rparr>"

definition loaded_engine :: engine where
  "loaded_engine = initializeModel \<lparr> isModelLoaded = False \<rparr>"

definition submitted_version :: "application \<Rightarrow> user \<Rightarrow> request_context \<Rightarrow> int \<Rightarrow> application" where
  "submitted_version app u ctx now =
     app \<lparr> status := submitted, submittedAt := Some now,
           auditTrail := auditTrail app @
             [\<lparr> action = ''application_submitted'', performedBy = user_id u,
                entry_timestamp = now, details = Submitted_details now,
                requestContext = ctx \<rparr>] \<rparr>"

section \<open>Feature extraction: proofs\<close>

lemma push_all_Inr:
  "list_all (\<lambda>x. \<not> isl x) es \<Longrightarrow> push_all es acc = Inr (acc @ map projr es)"
proof (induction es arbitrary: acc)
  case Nil
  then show ?case by simp
next
  case (Cons x es)
  then show ?case by (cases x) (simp_all add: push_def)
qed

lemma push_all_Inl:
  "list_all (\<lambda>x. x = Inl TypeError \<or> \<not> isl x) es \<Longrightarrow> \<not> list_all (\<lambda>x. \<not> isl x) es \<Longrightarrow>
     push_all es acc = Inl TypeError"
proof (induction es arbitrary: acc)
  case Nil
  then show ?case by simp
next
  case (Cons x es)
  then show ?case by (cases x) auto
qed

lemma to_number_isl: "isl (to_number v) = (\<not> convertible v)"
  by (cases v rule: to_number.cases) auto

lemma to_number_error: "to_number v = Inl e \<Longrightarrow> e = TypeError"
  by (cases v rule: to_number.cases) (auto split: if_splits)

lemma to_property_key_isl: "isl (to_property_key v) = (\<not> convertible v)"
  by (cases v rule: to_property_key.cases) auto

lemma to_property_key_error: "to_property_key v = Inl e \<Longrightarrow> e = TypeError"
  by (cases v rule: to_property_key.cases) (auto split: if_splits)

lemma convertible_js_or: "convertible (js_or v (Number d)) = convertible v"
  by (cases v rule: convertible.cases) (auto simp: js_or_def)

lemma js_div_isl: "isl (js_div v c) = (\<not> convertible v)"
  using to_number_isl[of v] by (cases "to_number v") (auto simp: js_div_def and_then_def)

lemma js_div_error: "js_div v c = Inl TypeError \<or> \<not> isl (js_div v c)"
  using to_number_error[of v] by (cases "to_number v") (auto simp: js_div_def and_then_def)

lemma purpose_feature_isl:
  "isl (and_then (getLoanPurposeScore p) (\<lambda>v. Inr (of_jsnum (purpose_div v 10)))) = (\<not> convertible p)"
  using to_property_key_isl[of p]
  by (cases "to_property_key p")
     (auto simp: getLoanPurposeScore_def and_then_def split: js_lookup.splits)

lemma purpose_feature_error:
  "and_then (getLoanPurposeScore p) (\<lambda>v. Inr (of_jsnum (purpose_div v 10))) = Inl TypeError
   \<or> \<not> isl (and_then (getLoanPurposeScore p) (\<lambda>v. Inr (of_jsnum (purpose_div v 10))))"
  using to_property_key_error[of p]
  by (cases "to_property_key p")
     (auto simp: getLoanPurposeScore_def and_then_def split: js_lookup.splits)

lemma feature_pushes_isl:
  "list_all (\<lambda>x. \<not> isl x) (feature_pushes a) = list_all convertible (extractor_fields a)"
  by (auto simp: feature_pushes_def extractor_fields_def js_div_isl convertible_js_or
        purpose_feature_isl)

lemma feature_pushes_error:
  "list_all (\<lambda>x. x = Inl TypeError \<or> \<not> isl x) (feature_pushes a)"
  by (simp add: feature_pushes_def js_div_error purpose_feature_error)

lemma preprocessFeatures_returns:
  "list_all convertible (extractor_fields a) \<Longrightarrow>
     preprocessFeatures (Some a) = Inr (map projr (feature_pushes a))"
  by (simp add: preprocessFeatures_def push_all_Inr feature_pushes_isl)

lemma preprocessFeatures_raises:
  "\<not> list_all convertible (extractor_fields a) \<Longrightarrow> preprocessFeatures (Some a) = Inl TypeError"
  by (simp add: preprocessFeatures_def push_all_Inl feature_pushes_isl feature_pushes_error)

lemma length_feature_pushes: "length (feature_pushes a) = 12"
  by (simp add: feature_pushes_def)

lemma preprocessFeatures_length: "preprocessFeatures d = Inr fs \<Longrightarrow> length fs = 12"
proof (cases d)
  case None
  assume "preprocessFeatures d = Inr fs"
  with None show ?thesis by (simp add: preprocessFeatures_def)
next
  case (Some a)
  assume r: "preprocessFeatures d = Inr fs"
  show ?thesis
  proof (cases "list_all convertible (extractor_fields a)")
    case True
    with r Some show ?thesis
      by (auto simp: preprocessFeatures_returns length_feature_pushes)
  next
    case False
    with r Some show ?thesis by (simp add: preprocessFeatures_raises)
  qed
qed

lemma number_or_missing_cases:
  "number_or_missing v \<Longrightarrow> v = Undefined \<or> v = Null \<or> (\<exists>r. v = Number r)"
  by (cases v) (auto simp: number_or_missing_def)

lemma js_or_numeric:
  "number_or_missing v \<Longrightarrow> js_or v (Number d) = Number (value_or_default v d)"
  by (auto dest!: number_or_missing_cases simp: js_or_def value_or_default_def)

lemma js_div_Number: "js_div (Number r) c = Inr (Number (r / c))"
  by (simp add: js_div_def and_then_def)

lemma purpose_feature_plain:
  "plain_purpose p \<Longrightarrow>
     and_then (getLoanPurposeScore p) (\<lambda>v. Inr (of_jsnum (purpose_div v 10)))
       = Inr (Number (spec_category_score p / 10))"
proof (cases p)
  case Undefined
  then show ?thesis
    by (simp add: getLoanPurposeScore_def and_then_def js_get_key_def js_get_def
          purposeScores_def object_prototype_keys_def spec_category_score_def)
next
  case (Text c n)
  assume "plain_purpose p"
  with Text show ?thesis
    by (simp add: getLoanPurposeScore_def and_then_def js_get_key_def js_get_def
          purposeScores_def spec_category_score_def spec_category_table_def plain_purpose_def)
qed (simp_all add: plain_purpose_def)

lemma feature_pushes_numeric:
  assumes "numeric_fields a" "plain_purpose (loanPurpose a)"
  shows "feature_pushes a =
           map Inr (map Number (spec_numeric_features a)
                    @ [Number (spec_category_score (loanPurpose a) / 10)])"
  using assms
  by (simp add: feature_pushes_def numeric_fields_def spec_numeric_features_def js_div_Number
        js_or_numeric purpose_feature_plain)

lemma preprocessFeatures_numeric:
  assumes "numeric_fields a" "plain_purpose (loanPurpose a)"
  shows "preprocessFeatures (Some a) =
           Inr (map Number (spec_numeric_features a)
                @ [Number (spec_category_score (loanPurpose a) / 10)])"
proof -
  have "push_all (map Inr vs) [] = Inr vs" for vs :: "jsval list"
    using push_all_Inr[of "map Inr vs" "[]"] by (simp add: list_all_iff comp_def)
  then show ?thesis
    by (simp only: preprocessFeatures_def option.case feature_pushes_numeric[OF assms])
qed

lemma unit_div:
  "raw_within x hi \<Longrightarrow> 0 \<le> d \<Longrightarrow> d \<le> hi \<Longrightarrow> 0 < hi \<Longrightarrow>
     in_unit (Number (value_or_default x d / hi))"
  by (cases x) (auto simp: raw_within_def value_or_default_def in_unit_def)

lemma unit_ratio:
  "raw_within x 1 \<Longrightarrow> 0 \<le> d \<Longrightarrow> d \<le> 1 \<Longrightarrow> in_unit (Number (value_or_default x d))"
  by (cases x) (auto simp: raw_within_def value_or_default_def in_unit_def)

lemma spec_category_score_range: "3 \<le> spec_category_score p \<and> spec_category_score p \<le> 9"
  by (cases p) (auto simp: spec_category_score_def spec_category_table_def)

lemma spec_features_in_unit:
  assumes r: "raw_in_range a"
  shows "list_all in_unit (map Number (spec_numeric_features a)
                           @ [Number (spec_category_score (loanPurpose a) / 10)])"
proof -
  have u: "in_unit (Number (spec_category_score (loanPurpose a) / 10))"
    using spec_category_score_range[of "loanPurpose a"] by (simp add: in_unit_def)
  from r have
    "in_unit (Number (value_or_default (creditScore a) 600 / 800))"
    "in_unit (Number (value_or_default (annualIncome a) 50000 / 200000))"
    "in_unit (Number (value_or_default (debtToIncomeRatio a) 0.3))"
    "in_unit (Number (value_or_default (employmentLength a) 2 / 20))"
    "in_unit (Number (value_or_default (loanAmount a) 50000 / 500000))"
    "in_unit (Number (value_or_default (loanTerm a) 15 / 30))"
    "in_unit (Number (value_or_default (paymentHistoryScore a) 80 / 100))"
    "in_unit (Number (value_or_default (creditUtilization a) 0.3))"
    "in_unit (Number (value_or_default (numberOfAccounts a) 5 / 20))"
    "in_unit (Number (value_or_default (recentInquiries a) 2 / 10))"
    "in_unit (Number (value_or_default (collateralValue a) 0 / 1000000))"
    unfolding raw_in_range_def by (auto intro: unit_div unit_ratio)
  with u show ?thesis
    by (simp only: spec_numeric_features_def list.map append.simps list.pred_inject simp_thms)
qed

lemma typical_applicant_ok:
  "numeric_fields typical_applicant \<and> plain_purpose (loanPurpose typical_applicant)
   \<and> raw_in_range typical_applicant"
  by (simp add: numeric_fields_def number_or_missing_def plain_purpose_def raw_in_range_def
        raw_within_def typical_applicant_def empty_applicant_def object_prototype_keys_def)

text \<open>
  Claim C4, amended.  For every input whose eleven numeric fields are each absent, \<open>null\<close>
  or a number and whose loan purpose is absent or a string that is not the name of a member
  of \<open>Object.prototype\<close> (an input with any or all fields absent is one), the extractor
  returns, without raising, exactly twelve features in the stated order; the first eleven
  are the raw value (the stated default when the value is missing, \<open>null\<close> or zero) over
  the stated divisor, with the debt-to-income and credit-utilization ratios passed through;
  the twelfth is the category score of the loan purpose over ten, unknown categories scoring
  five.  The features lie in [0,1] when every raw input that is a number lies between zero
  and its divisor (between zero and one for the two ratios); nothing clamps them otherwise.
\<close>

theorem preprocessFeatures_contract:
  assumes "numeric_fields a" and "plain_purpose (loanPurpose a)"
  shows "\<exists>fs. preprocessFeatures (Some a) = Inr fs
           \<and> length fs = 12
           \<and> take 11 fs = map Number (spec_numeric_features a)
           \<and> fs ! 11 = Number (spec_category_score (loanPurpose a) / 10)
           \<and> (raw_in_range a \<longrightarrow> list_all in_unit fs)"
proof -
  let ?fs = "map Number (spec_numeric_features a)
             @ [Number (spec_category_score (loanPurpose a) / 10)]"
  have l: "length (spec_numeric_features a) = 11" by (simp add: spec_numeric_features_def)
  have "preprocessFeatures (Some a) = Inr ?fs" by (rule preprocessFeatures_numeric[OF assms])
  moreover have "length ?fs = 12" using l by simp
  moreover have "take 11 ?fs = map Number (spec_numeric_features a)" using l by simp
  moreover have "?fs ! 11 = Number (spec_category_score (loanPurpose a) / 10)"
    using l by (simp add: nth_append)
  moreover have "raw_in_range a \<longrightarrow> list_all in_unit ?fs"
    using spec_features_in_unit by blast
  ultimately show ?thesis by blast
qed

text \<open>The typical applicant: twelve features in [0,1], the twelfth 3/10 for a vacation.\<close>

theorem preprocessFeatures_contract_witness:
  "numeric_fields typical_applicant \<and> plain_purpose (loanPurpose typical_applicant)
   \<and> raw_in_range typical_applicant
   \<and> (\<exists>fs. preprocessFeatures (Some typical_applicant) = Inr fs \<and> length fs = 12
         \<and> fs ! 11 = Number (3 / 10) \<and> list_all in_unit fs)"
proof -
  note n = typical_applicant_ok[THEN conjunct1]
    and p = typical_applicant_ok[THEN conjunct2, THEN conjunct1]
    and r = typical_applicant_ok[THEN conjunct2, THEN conjunct2]
  have s: "spec_category_score (loanPurpose typical_applicant) = 3"
    by (simp add: spec_category_score_def spec_category_table_def typical_applicant_def
          empty_applicant_def)
  from preprocessFeatures_contract[OF n p] r s
  have "\<exists>fs. preprocessFeatures (Some typical_applicant) = Inr fs \<and> length fs = 12
         \<and> fs ! 11 = Number (3 / 10) \<and> list_all in_unit fs"
    by auto
  then show ?thesis by (intro conjI) (rule n, rule p, rule r)
qed

text \<open>
  The claim as stated fails.  With an annual income of 250,000, the income of scenario D,
  the second feature is 1.25.  With the loan purpose \<open>constructor\<close> the lookup in the
  table of purposes finds the member every object inherits, and the twelfth feature is
  \<open>NaN\<close>, not 5/10.  With a credit score that is an object which cannot be converted to
  a primitive value the extractor raises a \<open>TypeError\<close>.
\<close>

theorem preprocessFeatures_not_unit_range:
  "feature_of (preprocessFeatures (Some scenario_D)) 1 = Inr (Number (5 / 4))
   \<and> \<not> list_all in_unit (projr (preprocessFeatures (Some scenario_D)))
   \<and> feature_of (preprocessFeatures
        (Some (empty_applicant\<lparr>loanPurpose := Text ''constructor'' NaN\<rparr>))) 11
       = Inr Not_a_number
   \<and> preprocessFeatures (Some unconvertible_applicant) = Inl TypeError"
proof -
  have n: "numeric_fields scenario_D" and p: "plain_purpose (loanPurpose scenario_D)"
    by (simp_all add: numeric_fields_def number_or_missing_def plain_purpose_def scenario_D_def
          empty_applicant_def)
  let ?fs = "map Number (spec_numeric_features scenario_D)
             @ [Number (spec_category_score (loanPurpose scenario_D) / 10)]"
  have e: "preprocessFeatures (Some scenario_D) = Inr ?fs"
    by (rule preprocessFeatures_numeric[OF n p])
  have v: "?fs ! 1 = Number (5 / 4) \<and> \<not> list_all in_unit ?fs"
    by (simp add: spec_numeric_features_def scenario_D_def empty_applicant_def
          value_or_default_def in_unit_def)
  have 1: "feature_of (preprocessFeatures (Some scenario_D)) 1 = Inr (Number (5 / 4))"
    unfolding e feature_of_def sum.case using v by simp
  have 2: "\<not> list_all in_unit (projr (preprocessFeatures (Some scenario_D)))"
    unfolding e sum.sel using v by simp
  let ?c = "empty_applicant\<lparr>loanPurpose := Text ''constructor'' NaN\<rparr>"
  have x: "list_all convertible (extractor_fields ?c)"
    by (simp add: extractor_fields_def empty_applicant_def)
  have 3: "feature_of (preprocessFeatures (Some ?c)) 11 = Inr Not_a_number"
    unfolding preprocessFeatures_returns[OF x] feature_of_def sum.case
    by (simp add: feature_pushes_def getLoanPurposeScore_def js_get_key_def js_get_def
          purposeScores_def object_prototype_keys_def and_then_def)
  have "\<not> list_all convertible (extractor_fields unconvertible_applicant)"
    by (simp add: extractor_fields_def unconvertible_applicant_def empty_applicant_def)
  then have 4: "preprocessFeatures (Some unconvertible_applicant) = Inl TypeError"
    by (rule preprocessFeatures_raises)
  show ?thesis by (intro conjI) (rule 1, rule 2, rule 3, rule 4)
qed









section \<open>The fraud heuristic: proofs\<close>

lemma js_gt_plain: "number_or_absent x \<Longrightarrow> js_gt x c = Inr (number_gt x c)"
  by (cases x) (simp_all add: number_or_absent_def js_gt_def number_gt_def and_then_def)

lemma js_lt_plain: "number_or_absent x \<Longrightarrow> js_lt x c = Inr (number_lt x c)"
  by (cases x) (simp_all add: number_or_absent_def js_lt_def number_lt_def and_then_def)

lemma js_and_Inr: "js_and (Inr x) (Inr y) = Inr (x \<and> y)"
  by (simp add: js_and_def and_then_def)

lemma fraud_check_Inr:
  "fraud_check (Inr c) f p st = Inr (if c then (push (fst st) f, snd st + p) else st)"
  by (simp add: fraud_check_def and_then_def)

lemma and_then_Inr: "and_then (Inr v) f = f v"
  by (simp add: and_then_def)

lemma and_then_Inl: "and_then (Inl e) f = Inl e"
  by (simp add: and_then_def)

lemma fraud_checks_plain:
  assumes "fraud_fields_plain a"
  shows "\<exists>fs. fraud_checks a = Inr (fs, sum_list (map (rule_contribution a) fraud_rules))
           \<and> length fs = length (filter (\<lambda>r. rule_holds r a) fraud_rules)"
  using assms
  by (simp add: fraud_fields_plain_def fraud_checks_def js_gt_plain js_lt_plain js_and_Inr
        fraud_check_Inr and_then_Inr fraud_rules_def rule_contribution_def push_def)

lemma sum_list_perm:
  assumes "mset rs = mset qs"
  shows "sum_list (map (f::'a \<Rightarrow> int) rs) = sum_list (map f qs)"
proof -
  have "sum_list (map f rs) = sum_mset (image_mset f (mset rs))"
    by (metis mset_map sum_mset_sum_list)
  also have "\<dots> = sum_mset (image_mset f (mset qs))" using assms by simp
  also have "\<dots> = sum_list (map f qs)"
    by (metis mset_map sum_mset_sum_list)
  finally show ?thesis .
qed

lemma length_filter_perm: "mset rs = mset qs \<Longrightarrow> length (filter P rs) = length (filter P qs)"
  by (metis mset_filter size_mset)

text \<open>The bands and the recommendation of every assessment the evaluator returns.\<close>

lemma fraud_bands:
  assumes "evaluateFraudRisk d = Inr r"
  shows "(fraud_riskLevel r = HIGH) = (fraudScore r > 50)
    \<and> (fraud_riskLevel r = MEDIUM) = (25 < fraudScore r \<and> fraudScore r \<le> 50)
    \<and> (fraud_riskLevel r = LOW) = (fraudScore r \<le> 25)
    \<and> (recommendation r = ''MANUAL_REVIEW'') = (fraudScore r > 50)
    \<and> (recommendation r = ''AUTOMATED_PROCESSING'') = (fraudScore r \<le> 50)"
  using assms
  by (auto simp: evaluateFraudRisk_def and_then_def
        split: option.splits sum.splits prod.splits if_splits)

lemma evaluateFraudRisk_checks:
  "fraud_checks a = Inr (fs, n) \<Longrightarrow>
     \<exists>r. evaluateFraudRisk (Some a) = Inr r \<and> fraudScore r = n \<and> riskFactors r = fs"
  by (simp add: evaluateFraudRisk_def and_then_def)

lemma scenario_D_plain: "fraud_fields_plain scenario_D"
  by (simp add: fraud_fields_plain_def scenario_D_def empty_applicant_def number_or_absent_def)

lemma scenario_D_contributions:
  "sum_list (map (rule_contribution scenario_D) (rev fraud_rules)) = 45"
  by (simp add: fraud_rules_def rule_contribution_def scenario_D_def empty_applicant_def
        number_gt_def number_lt_def)

lemma rev_fraud_rules: "mset (rev fraud_rules) = mset fraud_rules"
  by simp

text \<open>
  Claim C5, amended.  For every applicant whose six fields read by the evaluator (annual
  income, employment length, time at address, age, credit score, recent inquiries) are each
  a number or absent, \<open>evaluateFraudRisk\<close> returns an assessment whose fraud score is the
  sum of the contributions of exactly the rules whose conditions hold (30, 10, 20 and 15
  points), whatever the order the rules are taken in and each rule counted once, with one
  risk factor recorded per rule that holds; the risk level is HIGH iff the score exceeds
  50, MEDIUM iff it exceeds 25 and not 50, LOW otherwise; the recommendation is
  MANUAL_REVIEW iff the score exceeds 50 and AUTOMATED_PROCESSING otherwise.
\<close>

theorem evaluateFraudRisk_additive:
  assumes "mset rs = mset fraud_rules" and "fraud_fields_plain a"
  shows "\<exists>r. evaluateFraudRisk (Some a) = Inr r
    \<and> fraudScore r = sum_list (map (rule_contribution a) rs)
    \<and> length (riskFactors r) = length (filter (\<lambda>r. rule_holds r a) rs)
    \<and> (fraud_riskLevel r = HIGH) = (fraudScore r > 50)
    \<and> (fraud_riskLevel r = MEDIUM) = (25 < fraudScore r \<and> fraudScore r \<le> 50)
    \<and> (fraud_riskLevel r = LOW) = (fraudScore r \<le> 25)
    \<and> (recommendation r = ''MANUAL_REVIEW'') = (fraudScore r > 50)
    \<and> (recommendation r = ''AUTOMATED_PROCESSING'') = (fraudScore r \<le> 50)"
proof -
  from fraud_checks_plain[OF assms(2)] obtain fs where
    c: "fraud_checks a = Inr (fs, sum_list (map (rule_contribution a) fraud_rules))" and
    l: "length fs = length (filter (\<lambda>r. rule_holds r a) fraud_rules)"
    by blast
  from evaluateFraudRisk_checks[OF c] obtain r where
    r: "evaluateFraudRisk (Some a) = Inr r" and
    s: "fraudScore r = sum_list (map (rule_contribution a) fraud_rules)" and
    f: "riskFactors r = fs"
    by blast
  have 1: "fraudScore r = sum_list (map (rule_contribution a) rs)"
    using sum_list_perm[OF assms(1), of "rule_contribution a"] s by simp
  have 2: "length (riskFactors r) = length (filter (\<lambda>r. rule_holds r a) rs)"
    using length_filter_perm[OF assms(1), of "\<lambda>r. rule_holds r a"] l f by simp
  from r 1 2 fraud_bands[OF r] show ?thesis by blast
qed

text \<open>Scenario D of the specification: 30 + 15 = 45, MEDIUM, automated processing.\<close>

theorem evaluateFraudRisk_additive_witness:
  "\<exists>r. evaluateFraudRisk (Some scenario_D) = Inr r
     \<and> fraudScore r = sum_list (map (rule_contribution scenario_D) (rev fraud_rules))
     \<and> fraudScore r = 45
     \<and> fraud_riskLevel r = MEDIUM
     \<and> recommendation r = ''AUTOMATED_PROCESSING''"
proof -
  from evaluateFraudRisk_additive[OF rev_fraud_rules scenario_D_plain]
  obtain r where
    r: "evaluateFraudRisk (Some scenario_D) = Inr r" and
    s: "fraudScore r = sum_list (map (rule_contribution scenario_D) (rev fraud_rules))" and
    m: "(fraud_riskLevel r = MEDIUM) = (25 < fraudScore r \<and> fraudScore r \<le> 50)" and
    p: "(recommendation r = ''AUTOMATED_PROCESSING'') = (fraudScore r \<le> 50)"
    by blast
  from s have v: "fraudScore r = 45" by (simp only: scenario_D_contributions)
  from m v have "fraud_riskLevel r = MEDIUM" by simp
  moreover from p v have "recommendation r = ''AUTOMATED_PROCESSING''" by simp
  ultimately show ?thesis using r s v by blast
qed

text \<open>
  The claim as stated fails on an applicant whose time at the address and age are the
  JSON value \<open>null\<close>, which the analysis route hands to the evaluator as it is: \<open>null\<close>
  converts to 0, so \<open>null < 6\<close> and \<open>null < 21\<close> are true and the evaluator adds 10 and
  20 points and records two risk factors, although the applicant states neither a time at
  the address nor an age and no rule's condition holds.
\<close>

theorem evaluateFraudRisk_counts_null:
  "evaluateFraudRisk (Some null_applicant) =
     Inr \<lparr> fraudScore = 30, fraud_riskLevel = MEDIUM,
           riskFactors = [''Recently moved to current address'',
                          ''High credit score at young age''],
           recommendation = ''AUTOMATED_PROCESSING'' \<rparr>
   \<and> sum_list (map (rule_contribution null_applicant) fraud_rules) = 0
   \<and> filter (\<lambda>r. rule_holds r null_applicant) fraud_rules = []"
  by (simp add: evaluateFraudRisk_def fraud_checks_def fraud_check_def js_and_def js_gt_def
        js_lt_def and_then_def push_def null_applicant_def empty_applicant_def fraud_rules_def
        rule_contribution_def number_gt_def number_lt_def)

section \<open>The scoring engine: proofs\<close>

lemma loaded_engine_loaded: "isModelLoaded loaded_engine"
  by (simp add: loaded_engine_def initializeModel_def)

lemma to_number_convertible: "convertible v \<Longrightarrow> \<exists>n. to_number v = Inr n"
  using to_number_isl[of v] by (cases "to_number v") auto

lemma to_number_unconvertible: "\<not> convertible v \<Longrightarrow> to_number v = Inl TypeError"
  using to_number_isl[of v] to_number_error[of v] by (cases "to_number v") auto

text \<open>The loop of the demo score returns exactly when every feature converts to a number.\<close>

lemma weighted_sum_returns:
  "list_all convertible fs \<Longrightarrow> \<exists>r. weighted_sum fs ws s = Inr r"
proof (induction fs ws s rule: weighted_sum.induct)
  case (1 ws score)
  then show ?case by simp
next
  case (2 f fs score)
  then obtain n where "to_number f = Inr n" using to_number_convertible[of f] by auto
  with 2 show ?case by (simp add: and_then_def)
next
  case (3 f fs w ws score)
  then obtain n where "to_number f = Inr n" using to_number_convertible[of f] by auto
  with 3 show ?case by (simp add: and_then_def)
qed

lemma weighted_sum_raises:
  "\<not> list_all convertible fs \<Longrightarrow> weighted_sum fs ws s = Inl TypeError"
proof (induction fs ws s rule: weighted_sum.induct)
  case (1 ws score)
  then show ?case by simp
next
  case (2 f fs score)
  show ?case
  proof (cases "convertible f")
    case True
    then obtain n where "to_number f = Inr n" using to_number_convertible[of f] by auto
    with 2 True show ?thesis by (simp add: and_then_def)
  next
    case False
    then show ?thesis by (simp add: to_number_unconvertible and_then_def)
  qed
next
  case (3 f fs w ws score)
  show ?case
  proof (cases "convertible f")
    case True
    then obtain n where "to_number f = Inr n" using to_number_convertible[of f] by auto
    with 3 True show ?thesis by (simp add: and_then_def)
  next
    case False
    then show ?thesis by (simp add: to_number_unconvertible and_then_def)
  qed
qed

lemma calculateCreditScoreDemo_returns:
  "list_all convertible fs \<Longrightarrow> \<exists>p. calculateCreditScoreDemo fs rnd = Inr p"
  using weighted_sum_returns[of fs weights "Num 0"]
  by (auto simp: calculateCreditScoreDemo_def and_then_def Let_def)

lemma calculateCreditScoreDemo_raises:
  "\<not> list_all convertible fs \<Longrightarrow> calculateCreditScoreDemo fs rnd = Inl TypeError"
  by (simp add: calculateCreditScoreDemo_def weighted_sum_raises and_then_def)

lemma js_gt_convertible: "convertible v \<Longrightarrow> \<exists>b. js_gt v c = Inr b"
  using to_number_convertible[of v] by (auto simp: js_gt_def and_then_def)

lemma js_lt_convertible: "convertible v \<Longrightarrow> \<exists>b. js_lt v c = Inr b"
  using to_number_convertible[of v] by (auto simp: js_lt_def and_then_def)

lemma push_if_Inr: "push_if (Inr b) x xs = Inr (if b then push xs x else xs)"
  by (simp add: push_if_def and_then_def)

lemma convertible_feature_at: "list_all convertible fs \<Longrightarrow> convertible (feature_at fs i)"
  by (simp add: feature_at_def list_all_length)

lemma analyzeFactors_returns:
  assumes "list_all convertible fs"
  shows "\<exists>fl. analyzeFactors d fs = Inr fl"
proof -
  note c = convertible_feature_at[OF assms]
  obtain b0 where 0: "js_lt (feature_at fs 0) 0.6 = Inr b0"
    using js_lt_convertible[OF c] by blast
  obtain b1 where 1: "js_gt (feature_at fs 1) 0.8 = Inr b1"
    using js_gt_convertible[OF c] by blast
  obtain b2 where 2: "js_gt (feature_at fs 2) 0.4 = Inr b2"
    using js_gt_convertible[OF c] by blast
  obtain b6 where 6: "js_gt (feature_at fs 6) 0.9 = Inr b6"
    using js_gt_convertible[OF c] by blast
  obtain b7 where 7: "js_gt (feature_at fs 7) 0.7 = Inr b7"
    using js_gt_convertible[OF c] by blast
  show ?thesis
    unfolding analyzeFactors_def 0 1 2 6 7 push_if_Inr and_then_Inr by blast
qed

lemma generateRecommendations_returns:
  assumes "convertible (debtToIncomeRatio a)"
  shows "\<exists>rl. generateRecommendations (Some a) cs = Inr rl"
proof -
  obtain b where b: "js_gt (debtToIncomeRatio a) 0.4 = Inr b"
    using js_gt_convertible[OF assms] by blast
  show ?thesis
    unfolding generateRecommendations_def option.case b push_if_Inr and_then_Inr by blast
qed

text \<open>The features the extractor returns convert exactly when the two ratios do.\<close>

lemma convertible_of_jsnum: "convertible (of_jsnum n)"
  by (cases n) simp_all

lemma convertible_js_div: "js_div v c = Inr w \<Longrightarrow> convertible w"
  by (auto simp: js_div_def and_then_def convertible_of_jsnum split: sum.splits)

lemma convertible_projr_js_div: "\<not> isl (js_div v c) \<Longrightarrow> convertible (projr (js_div v c))"
  by (cases "js_div v c") (auto dest: convertible_js_div)

lemma convertible_purpose_feature:
  "convertible (projr (and_then (getLoanPurposeScore p) (\<lambda>v. Inr (of_jsnum (purpose_div v 10)))))
   \<or> isl (and_then (getLoanPurposeScore p) (\<lambda>v. Inr (of_jsnum (purpose_div v 10))))"
  by (cases "getLoanPurposeScore p") (simp_all add: and_then_def convertible_of_jsnum)

lemma features_convertible:
  assumes "list_all convertible (extractor_fields a)"
  shows "list_all convertible (map projr (feature_pushes a)) =
           (convertible (debtToIncomeRatio a) \<and> convertible (creditUtilization a))"
proof -
  from assms have n: "list_all (\<lambda>x. \<not> isl x) (feature_pushes a)"
    by (simp add: feature_pushes_isl)
  then show ?thesis
    using convertible_purpose_feature[of "loanPurpose a"]
    by (auto simp: feature_pushes_def convertible_projr_js_div convertible_js_or)
qed

lemma scoring_fields_extractor:
  "list_all convertible (scoring_fields a) =
     (list_all convertible (extractor_fields a)
      \<and> convertible (debtToIncomeRatio a) \<and> convertible (creditUtilization a))"
  by (auto simp: scoring_fields_def extractor_fields_def)

lemma predictCreditScoreDemo_returns:
  assumes "isModelLoaded e" "list_all convertible (scoring_fields a)"
  shows "\<exists>p. predictCreditScoreDemo e rnd now (Some a) = Inr p"
proof -
  from assms(2) have x: "list_all convertible (extractor_fields a)"
    and d: "convertible (debtToIncomeRatio a)" and u: "convertible (creditUtilization a)"
    by (simp_all add: scoring_fields_extractor)
  let ?fs = "map projr (feature_pushes a)"
  have f: "preprocessFeatures (Some a) = Inr ?fs" by (rule preprocessFeatures_returns[OF x])
  have c: "list_all convertible ?fs" using features_convertible[OF x] d u by simp
  obtain s where s: "calculateCreditScoreDemo ?fs rnd = Inr s"
    using calculateCreditScoreDemo_returns[OF c] by blast
  obtain fl where fl: "analyzeFactors (Some a) ?fs = Inr fl"
    using analyzeFactors_returns[OF c] by blast
  obtain rl where rl:
    "generateRecommendations (Some a) (math_round (jadd (jmul s (Num 550)) (Num 300))) = Inr rl"
    using generateRecommendations_returns[OF d] by blast
  show ?thesis
    using assms(1) by (simp add: predictCreditScoreDemo_def f s fl rl and_then_Inr Let_def)
qed

lemma predictCreditScoreDemo_TypeError:
  assumes "isModelLoaded e" "scoring_raises d"
  shows "predictCreditScoreDemo e rnd now d = Inl TypeError"
proof (cases d)
  case None
  with assms(1) show ?thesis
    by (simp add: predictCreditScoreDemo_def preprocessFeatures_def and_then_Inl)
next
  case (Some a)
  with assms(2) have n: "\<not> list_all convertible (scoring_fields a)"
    by (simp add: scoring_raises_def)
  show ?thesis
  proof (cases "list_all convertible (extractor_fields a)")
    case False
    with assms(1) Some show ?thesis
      by (simp add: predictCreditScoreDemo_def preprocessFeatures_raises and_then_Inl)
  next
    case True
    let ?fs = "map projr (feature_pushes a)"
    have f: "preprocessFeatures (Some a) = Inr ?fs" by (rule preprocessFeatures_returns[OF True])
    from n True have "\<not> list_all convertible ?fs"
      by (simp add: features_convertible scoring_fields_extractor)
    then have "calculateCreditScoreDemo ?fs rnd = Inl TypeError"
      by (rule calculateCreditScoreDemo_raises)
    with assms(1) Some f show ?thesis
      by (simp add: predictCreditScoreDemo_def and_then_Inr and_then_Inl)
  qed
qed

lemma isModelLoaded_initializeModel: "isModelLoaded (initializeModel e)"
  by (simp add: initializeModel_def)

lemma typical_applicant_convertible: "list_all convertible (scoring_fields typical_applicant)"
  by (simp add: scoring_fields_def typical_applicant_def empty_applicant_def)

lemma unconvertible_applicant_raises: "scoring_raises (Some unconvertible_applicant)"
  by (simp add: scoring_raises_def scoring_fields_def unconvertible_applicant_def
        empty_applicant_def)

text \<open>
  Claim C8, amended.  The demo \<open>predictCreditScore\<close> raises the error of an engine that
  is not initialized if and only if the engine has not been initialized.  Once the engine
  is initialized, the scoring raises exactly when the applicant data is \<open>null\<close> or
  \<open>undefined\<close> or one of the twelve fields it converts (the eleven numeric fields and the
  loan purpose) cannot be converted to a primitive value, and it then raises a
  \<open>TypeError\<close>; on every other input it returns a result.
\<close>

theorem predictCreditScoreDemo_raises_exactly:
  "(predictCreditScoreDemo e rnd now d = Inl Model_not_loaded) = (\<not> isModelLoaded e)
   \<and> isl (predictCreditScoreDemo (initializeModel e) rnd now d) = scoring_raises d
   \<and> (predictCreditScoreDemo (initializeModel e) rnd now d = Inl TypeError) = scoring_raises d"
proof -
  have 1: "(predictCreditScoreDemo e rnd now d = Inl Model_not_loaded) = (\<not> isModelLoaded e)"
  proof (cases "isModelLoaded e")
    case False
    then show ?thesis by (simp add: predictCreditScoreDemo_def)
  next
    case True
    show ?thesis
    proof (cases "scoring_raises d")
      case True
      with \<open>isModelLoaded e\<close> show ?thesis by (simp add: predictCreditScoreDemo_TypeError)
    next
      case False
      then obtain a where "d = Some a" "list_all convertible (scoring_fields a)"
        by (auto simp: scoring_raises_def split: option.splits)
      with \<open>isModelLoaded e\<close> predictCreditScoreDemo_returns[of e a rnd now]
      show ?thesis by auto
    qed
  qed
  have r: "(predictCreditScoreDemo (initializeModel e) rnd now d = Inl TypeError)
              = scoring_raises d
            \<and> isl (predictCreditScoreDemo (initializeModel e) rnd now d) = scoring_raises d"
  proof (cases "scoring_raises d")
    case True
    then have "predictCreditScoreDemo (initializeModel e) rnd now d = Inl TypeError"
      by (simp add: predictCreditScoreDemo_TypeError isModelLoaded_initializeModel)
    with True show ?thesis by simp
  next
    case False
    then obtain a where "d = Some a" "list_all convertible (scoring_fields a)"
      by (auto simp: scoring_raises_def split: option.splits)
    with predictCreditScoreDemo_returns[of "initializeModel e" a rnd now]
    obtain p where "predictCreditScoreDemo (initializeModel e) rnd now d = Inr p"
      by (auto simp: isModelLoaded_initializeModel)
    with False show ?thesis by simp
  qed
  note 2 = r[THEN conjunct2] and 3 = r[THEN conjunct1]
  show ?thesis by (intro conjI) (rule 1, rule 2, rule 3)
qed

text \<open>
  An engine that is not initialized raises on the typical applicant; the initialized one
  returns a result for it.
\<close>

theorem predictCreditScoreDemo_raises_exactly_witness:
  "predictCreditScoreDemo \<lparr> isModelLoaded = False \<rparr> (1 / 2) 0 (Some typical_applicant)
     = Inl Model_not_loaded
   \<and> \<not> isl (predictCreditScoreDemo loaded_engine (1 / 2) 0 (Some typical_applicant))"
proof -
  note t = predictCreditScoreDemo_raises_exactly
             [of "\<lparr> isModelLoaded = False \<rparr>" "1 / 2" 0 "Some typical_applicant"]
  from t have a: "predictCreditScoreDemo \<lparr> isModelLoaded = False \<rparr> (1 / 2) 0
                    (Some typical_applicant) = Inl Model_not_loaded"
    by simp
  have n: "\<not> scoring_raises (Some typical_applicant)"
    by (simp add: scoring_raises_def typical_applicant_convertible)
  from t n have b: "\<not> isl (predictCreditScoreDemo loaded_engine (1 / 2) 0 (Some typical_applicant))"
    unfolding loaded_engine_def by blast
  show ?thesis by (intro conjI) (rule a, rule b)
qed

text \<open>
  The claim as stated fails: the initialized engine raises a \<open>TypeError\<close> when the
  applicant data is \<open>null\<close> or \<open>undefined\<close>, and when the credit score of the applicant
  is an object that cannot be converted to a primitive value.
\<close>

theorem predictCreditScoreDemo_raises_when_loaded:
  "isModelLoaded loaded_engine
   \<and> predictCreditScoreDemo loaded_engine (1 / 2) 0 None = Inl TypeError
   \<and> predictCreditScoreDemo loaded_engine (1 / 2) 0 (Some unconvertible_applicant)
       = Inl TypeError"
proof -
  have n: "scoring_raises None" by (simp add: scoring_raises_def)
  show ?thesis
    by (intro conjI)
       (rule loaded_engine_loaded,
        rule predictCreditScoreDemo_TypeError[OF loaded_engine_loaded n],
        rule predictCreditScoreDemo_TypeError
               [OF loaded_engine_loaded unconvertible_applicant_raises])
qed

text \<open>
  Claim C3 fails on the engine backed by the network: its score is scaled by 850, not by
  550, so a network output of 0.9 gives a credit score of 1065, above 850.
\<close>

theorem predictCreditScore_exceeds_850:
  "\<exists>p. predictCreditScore \<lparr> isModelLoaded = True \<rparr> (\<lambda>fs. Inr (Num (9 / 10))) now
          (Some empty_applicant) = Inr p
       \<and> pred_creditScore p = Num 1065 \<and> pred_riskLevel p = LOW
       \<and> \<not> is_integer_between (pred_creditScore p) 300 850"
proof -
  have x: "list_all convertible (extractor_fields empty_applicant)"
    by (simp add: extractor_fields_def empty_applicant_def)
  let ?fs = "map projr (feature_pushes empty_applicant)"
  have f: "preprocessFeatures (Some empty_applicant) = Inr ?fs"
    by (rule preprocessFeatures_returns[OF x])
  have c: "list_all convertible ?fs"
    using features_convertible[OF x] by (simp add: empty_applicant_def)
  obtain fl where fl: "analyzeFactors (Some empty_applicant) ?fs = Inr fl"
    using analyzeFactors_returns[OF c] by blast
  have d: "convertible (debtToIncomeRatio empty_applicant)" by (simp add: empty_applicant_def)
  have r: "math_round (jadd (jmul (Num (9 / 10)) (Num 850)) (Num 300)) = Num 1065"
    by simp
  obtain rl where rl: "generateRecommendations (Some empty_applicant) (Num 1065) = Inr rl"
    using generateRecommendations_returns[OF d] by blast
  show ?thesis
    by (simp add: predictCreditScore_def f fl rl and_then_Inr Let_def is_integer_between_def
          calculateRiskLevel_def)
qed

text \<open>
  A loan purpose that names a member of \<open>Object.prototype\<close> makes the twelfth feature, and
  with it the credit score of the demo engine, \<open>NaN\<close>.
\<close>

lemma predictCreditScoreDemo_NaN:
  "\<exists>p. predictCreditScoreDemo loaded_engine rnd now
          (Some (empty_applicant\<lparr>loanPurpose := Text ''constructor'' NaN\<rparr>)) = Inr p
     \<and> pred_creditScore p = NaN \<and> pred_riskLevel p = VERY_HIGH"
proof -
  let ?c = "empty_applicant\<lparr>loanPurpose := Text ''constructor'' NaN\<rparr>"
  have x: "list_all convertible (extractor_fields ?c)"
    by (simp add: extractor_fields_def empty_applicant_def)
  let ?fs = "map projr (feature_pushes ?c)"
  have f: "preprocessFeatures (Some ?c) = Inr ?fs" by (rule preprocessFeatures_returns[OF x])
  have c: "list_all convertible ?fs"
    using features_convertible[OF x] by (simp add: empty_applicant_def)
  have s: "calculateCreditScoreDemo ?fs rnd = Inr NaN"
    by (simp add: calculateCreditScoreDemo_def weights_def feature_pushes_def
          getLoanPurposeScore_def js_get_key_def js_get_def purposeScores_def
          object_prototype_keys_def and_then_def js_div_def js_or_def empty_applicant_def)
  obtain fl where fl: "analyzeFactors (Some ?c) ?fs = Inr fl"
    using analyzeFactors_returns[OF c] by blast
  have d: "convertible (debtToIncomeRatio ?c)" by (simp add: empty_applicant_def)
  have r: "math_round (jadd (jmul NaN (Num 550)) (Num 300)) = NaN" by simp
  obtain rl where rl: "generateRecommendations (Some ?c) NaN = Inr rl"
    using generateRecommendations_returns[OF d] by blast
  show ?thesis
    using loaded_engine_loaded
    by (simp add: predictCreditScoreDemo_def f s fl rl and_then_Inr Let_def
          calculateRiskLevel_def)
qed

section \<open>Default permissions: proofs\<close>

lemma getDefaultPermissions_admin:
  "getDefaultPermissions ''admin'' = Grant_list
     [\<lparr> resource = ''applications'',
         actions = [''create'', ''read'', ''update'', ''delete'', ''approve''] \<rparr>,
      \<lparr> resource = ''users'', actions = [''create'', ''read'', ''update'', ''delete''] \<rparr>,
      \<lparr> resource = ''reports'', actions = [''create'', ''read'', ''update'', ''delete''] \<rparr>,
      \<lparr> resource = ''settings'', actions = [''read'', ''update''] \<rparr>]"
  by (simp add: getDefaultPermissions_def js_get_def permissionSets_def)

text \<open>
  Claim C7, as amended.  The default grants of an admin are create, read, update, delete
  and approve on applications, create, read, update and delete on users and on reports,
  and read and update on settings; of an underwriter read, update and approve on
  applications and read on reports; of an analyst create, read and update on applications
  and read on reports; of a viewer read on applications and on reports.
\<close>

theorem getDefaultPermissions_roles:
  "getDefaultPermissions ''admin'' = Grant_list
     [\<lparr> resource = ''applications'',
         actions = [''create'', ''read'', ''update'', ''delete'', ''approve''] \<rparr>,
      \<lparr> resource = ''users'', actions = [''create'', ''read'', ''update'', ''delete''] \<rparr>,
      \<lparr> resource = ''reports'', actions = [''create'', ''read'', ''update'', ''delete''] \<rparr>,
      \<lparr> resource = ''settings'', actions = [''read'', ''update''] \<rparr>]
   \<and> getDefaultPermissions ''underwriter'' = Grant_list
        [\<lparr> resource = ''applications'', actions = [''read'', ''update'', ''approve''] \<rparr>,
         \<lparr> resource = ''reports'', actions = [''read''] \<rparr>]
   \<and> getDefaultPermissions ''analyst'' = Grant_list
        [\<lparr> resource = ''applications'', actions = [''create'', ''read'', ''update''] \<rparr>,
         \<lparr> resource = ''reports'', actions = [''read''] \<rparr>]
   \<and> getDefaultPermissions ''viewer'' = Grant_list
        [\<lparr> resource = ''applications'', actions = [''read''] \<rparr>,
         \<lparr> resource = ''reports'', actions = [''read''] \<rparr>]"
  by (simp add: getDefaultPermissions_def js_get_def permissionSets_def)

theorem getDefaultPermissions_roles_witness:
  "allows (getDefaultPermissions ''admin'') ''applications'' ''approve''
   \<and> allows (getDefaultPermissions ''underwriter'') ''applications'' ''approve''
   \<and> allows (getDefaultPermissions ''analyst'') ''applications'' ''create''
   \<and> allows (getDefaultPermissions ''viewer'') ''reports'' ''read''"
proof -
  note t = getDefaultPermissions_roles
  have "allows (getDefaultPermissions ''admin'') ''applications'' ''approve''"
    by (simp only: t[THEN conjunct1]) (simp add: allows_def)
  moreover have "allows (getDefaultPermissions ''underwriter'') ''applications'' ''approve''"
    by (simp only: t[THEN conjunct2, THEN conjunct1]) (simp add: allows_def)
  moreover have "allows (getDefaultPermissions ''analyst'') ''applications'' ''create''"
    by (simp only: t[THEN conjunct2, THEN conjunct2, THEN conjunct1]) (simp add: allows_def)
  moreover have "allows (getDefaultPermissions ''viewer'') ''reports'' ''read''"
    by (simp only: t[THEN conjunct2, THEN conjunct2, THEN conjunct2]) (simp add: allows_def)
  ultimately show ?thesis by blast
qed

text \<open>
  The claim as stated fails: an admin does not hold every one of create, read, update,
  delete and approve on every one of the four resources.
\<close>

theorem admin_lacks_full_grants:
  "\<not> list_all (\<lambda>res. list_all (\<lambda>act. allows (getDefaultPermissions ''admin'') res act)
                     crud_approve) all_resources"
  by (simp add: getDefaultPermissions_admin allows_def crud_approve_def all_resources_def)

text \<open>
  Claim C10 fails on a role that names a member of \<open>Object.prototype\<close>: the lookup returns
  that member, not the grants of a viewer.
\<close>

theorem getDefaultPermissions_constructor:
  "register_defaults (Some ''constructor'') = (''constructor'', Prototype_object ''constructor'')
   \<and> getDefaultPermissions ''constructor'' \<noteq> getDefaultPermissions ''viewer''"
  by (simp add: register_defaults_def role_or_analyst_def getDefaultPermissions_def js_get_def
        permissionSets_def object_prototype_keys_def)

text \<open>The rest of the claim holds: an absent role, and every other unknown role.\<close>

lemma register_defaults_fallbacks:
  "register_defaults None = (''analyst'', getDefaultPermissions ''analyst'')
   \<and> (r \<notin> set [''admin'', ''underwriter'', ''analyst'', ''viewer'']
        \<and> r \<notin> set object_prototype_keys
        \<longrightarrow> getDefaultPermissions r = getDefaultPermissions ''viewer'')"
  by (auto simp add: register_defaults_def role_or_analyst_def getDefaultPermissions_def
        js_get_def permissionSets_def)

section \<open>The application routes: proofs\<close>

subsection \<open>Middleware and store\<close>

lemma checkPermission_Inl: "checkPermission r a ru = Inl x \<Longrightarrow> is_failure x"
  by (auto simp: checkPermission_def split: option.splits if_splits)

lemma checkPermission_ok: "hasPermission u r a \<Longrightarrow> checkPermission r a (Some u) = Inr u"
  by (simp add: checkPermission_def)

lemma find_mem: "find P xs = Some x \<Longrightarrow> x \<in> set xs \<and> P x"
  by (induction xs) (auto split: if_splits)

lemma findOne_mem: "findOne db pid = Some app \<Longrightarrow> app \<in> set db"
  by (auto simp: findOne_def dest: find_mem)

lemma findOne_by_applicationId_mem:
  "findOne_by_applicationId db pid = Some app \<Longrightarrow> app \<in> set db"
  by (auto simp: findOne_by_applicationId_def dest: find_mem)

lemma zip_map_same: "zip (map f xs) (map g xs) = map (\<lambda>x. (f x, g x)) xs"
  by (induction xs) auto

text \<open>
  With distinct document ids, saving a document changes the status of that document
  alone.
\<close>

lemma transitions_save:
  assumes d: "distinct (map doc_id db)" and m: "app \<in> set db"
    and i: "doc_id app' = doc_id app" and t: "(s, s') \<in> set (transitions db (save app' db))"
  shows "s = status app \<and> s' = status app' \<and> s \<noteq> s'"
proof -
  from t obtain x where x: "x \<in> set db" "s = status x"
      "s' = status (if doc_id x = doc_id app' then app' else x)" "s \<noteq> s'"
    by (auto simp: transitions_def save_def zip_map_same)
  then have "doc_id x = doc_id app'" by (auto split: if_splits)
  with d m i x(1) have "x = app" by (auto simp: distinct_map inj_on_def)
  with x i show ?thesis by simp
qed

lemma no_pairs_Nil: "(\<And>s s'. (s, s') \<in> set xs \<Longrightarrow> False) \<Longrightarrow> xs = []"
  by (cases xs) force+

lemma transitions_same: "transitions db db = []"
  by (induction db) (auto simp: transitions_def)

lemma doc_id_assign_field: "doc_id (assign_field a f) = doc_id a"
  by (cases f) auto

lemma doc_id_object_assign: "doc_id (object_assign a body) = doc_id a"
  unfolding object_assign_def by (induction body arbitrary: a) (auto simp: doc_id_assign_field)

lemma doc_id_addAuditEntry: "doc_id (addAuditEntry x u d c n a) = doc_id a"
  by (simp add: addAuditEntry_def)

lemma status_addAuditEntry: "status (addAuditEntry x u d c n a) = status a"
  by (simp add: addAuditEntry_def)

lemma findOne_save:
  assumes d: "distinct (map doc_id db)" and f: "findOne db pid = Some app"
    and i: "doc_id app' = doc_id app" and a: "applicationId app' = applicationId app"
  shows "findOne (save app' db) pid = Some app'"
proof -
  let ?P = "\<lambda>d. doc_id d = pid \<or> applicationId d = pid"
  from f have m: "app \<in> set db" and p: "?P app" by (auto simp: findOne_def dest: find_mem)
  from f have "find ?P db = Some app" by (simp add: findOne_def)
  then have "find ?P (map (\<lambda>d. if doc_id d = doc_id app' then app' else d) db) = Some app'"
    using d m i a p
  proof (induction db)
    case Nil
    then show ?case by simp
  next
    case (Cons x xs)
    show ?case
    proof (cases "?P x")
      case True
      with Cons.prems(1) have "x = app" by simp
      with True i a show ?thesis by simp
    next
      case False
      with Cons.prems(1) have fx: "find ?P xs = Some app" by simp
      then have mx: "app \<in> set xs" by (auto dest: find_mem)
      with Cons.prems(2) have "doc_id x \<noteq> doc_id app" by (auto simp: rev_image_eqI)
      with False i Cons.IH[OF fx _ mx i a p] Cons.prems(2) show ?thesis by simp
    qed
  qed
  then show ?thesis by (simp add: findOne_def save_def)
qed

subsection \<open>Rejected attempts\<close>

lemma put_application_noop:
  "is_failure (fst (put_application ru pid body ctx now db)) \<Longrightarrow>
     snd (put_application ru pid body ctx now db) = db"
  by (auto simp: put_application_def Let_def split: sum.splits option.splits if_splits)

lemma post_application_submit_noop:
  "is_failure (fst (post_application_submit ru pid ctx now db)) \<Longrightarrow>
     snd (post_application_submit ru pid ctx now db) = db"
  by (auto simp: post_application_submit_def Let_def split: sum.splits option.splits if_splits)

lemma post_application_assign_noop:
  "is_failure (fst (post_application_assign ru pid x ctx now db)) \<Longrightarrow>
     snd (post_application_assign ru pid x ctx now db) = db"
  by (auto simp: post_application_assign_def Let_def split: sum.splits option.splits if_splits)

lemma post_application_notes_noop:
  "is_failure (fst (post_application_notes ru pid x y ctx now db)) \<Longrightarrow>
     snd (post_application_notes ru pid x y ctx now db) = db"
  by (auto simp: post_application_notes_def Let_def split: sum.splits option.splits if_splits)

lemma post_ai_analyze_noop:
  "is_failure (fst (post_ai_analyze ru aid dta e predict ctx now db)) \<Longrightarrow>
     snd (post_ai_analyze ru aid dta e predict ctx now db) = db"
  by (auto simp: post_ai_analyze_def Let_def split: sum.splits option.splits if_splits)

lemma failure_noop:
  "is_failure (fst (router e predict rq ru pid ctx now db)) \<Longrightarrow>
     snd (router e predict rq ru pid ctx now db) = db"
  by (cases rq)
     (simp_all add: put_application_noop post_application_submit_noop
        post_application_assign_noop post_application_notes_noop post_ai_analyze_noop)

lemma lacks_permission_rejected:
  "lacks_permission rq ru \<Longrightarrow>
     \<exists>m. router e predict rq ru pid ctx now db =
           (Failure (if ru = None then 401 else 403) m, db)"
  by (cases rq; cases ru)
     (auto simp: put_application_def post_application_submit_def post_application_assign_def
        post_application_notes_def post_ai_analyze_def checkPermission_def authorize_def)

lemma permitted_checkPermission:
  "\<not> lacks_permission (Update body) ru \<Longrightarrow>
     \<exists>u. checkPermission ''applications'' ''update'' ru = Inr u"
  "\<not> lacks_permission Submit ru \<Longrightarrow> \<exists>u. checkPermission ''applications'' ''update'' ru = Inr u"
  by (cases ru; auto simp: checkPermission_def)+

lemma illegal_rejected:
  assumes "findOne db pid = Some app" "illegal_from rq (status app)" "\<not> lacks_permission rq ru"
  shows "\<exists>m. router e predict rq ru pid ctx now db = (Failure 400 m, db)"
proof (cases rq)
  case (Update body)
  with assms permitted_checkPermission(1)[of body ru] show ?thesis
    by (auto simp: put_application_def)
next
  case Submit
  with assms permitted_checkPermission(2)[of ru] show ?thesis
    by (auto simp: post_application_submit_def)
qed (use assms in simp_all)

lemma analyst_can_update: "hasPermission (user_of_role 7 ''analyst'') ''applications'' ''update''"
  by (simp add: hasPermission_def user_of_role_def getDefaultPermissions_def js_get_def
        permissionSets_def)

lemma viewer_cannot_update:
  "\<not> hasPermission (user_of_role 9 ''viewer'') ''applications'' ''update''"
  by (simp add: hasPermission_def user_of_role_def getDefaultPermissions_def js_get_def
        permissionSets_def)

lemma findOne_blank:
  "findOne [blank_application ''1'' st] ''1'' = Some (blank_application ''1'' st)"
  by (simp add: findOne_def blank_application_def)

lemma status_blank: "status (blank_application i st) = st"
  by (simp add: blank_application_def)

lemma distinct_blank: "distinct (map doc_id [blank_application ''1'' st])"
  by simp

text \<open>
  Claim C2.  Every attempt that the router answers with an error leaves the store, and so
  the application, its status, its fields and its audit trail, exactly as it was; an actor
  who lacks what the route requires gets the error 401 or 403, and an update of an
  approved or denied application or a submit of an application that is not a draft gets
  the error 400.
\<close>

theorem rejected_attempt_is_noop:
  "(is_failure (fst (router e predict rq ru pid ctx now db)) \<longrightarrow>
      snd (router e predict rq ru pid ctx now db) = db)
   \<and> (lacks_permission rq ru \<longrightarrow>
        (\<exists>m. router e predict rq ru pid ctx now db =
              (Failure (if ru = None then 401 else 403) m, db)))
   \<and> (findOne db pid = Some app \<and> illegal_from rq (status app) \<and> \<not> lacks_permission rq ru \<longrightarrow>
        (\<exists>m. router e predict rq ru pid ctx now db = (Failure 400 m, db)))"
proof (intro conjI impI)
  show "snd (router e predict rq ru pid ctx now db) = db"
    if "is_failure (fst (router e predict rq ru pid ctx now db))"
    using that by (rule failure_noop)
  show "\<exists>m. router e predict rq ru pid ctx now db =
          (Failure (if ru = None then 401 else 403) m, db)"
    if "lacks_permission rq ru"
    using that by (rule lacks_permission_rejected)
  show "\<exists>m. router e predict rq ru pid ctx now db = (Failure 400 m, db)"
    if "findOne db pid = Some app \<and> illegal_from rq (status app) \<and> \<not> lacks_permission rq ru"
    using that illegal_rejected[of db pid app rq ru] by blast
qed

text \<open>Scenario E, and the same update attempted by a viewer.\<close>

theorem rejected_attempt_is_noop_witness:
  "lacks_permission (Update [Set_status draft]) (Some (user_of_role 9 ''viewer''))
   \<and> (\<exists>m. router loaded_engine (predictCreditScoreDemo loaded_engine (1 / 2) 0)
             (Update [Set_status draft]) (Some (user_of_role 9 ''viewer'')) ''1'' some_context 0
             [blank_application ''1'' approved]
           = (Failure 403 m, [blank_application ''1'' approved]))
   \<and> findOne [blank_application ''1'' approved] ''1'' = Some (blank_application ''1'' approved)
   \<and> illegal_from (Update [Set_status draft]) (status (blank_application ''1'' approved))
   \<and> \<not> lacks_permission (Update [Set_status draft]) (Some (user_of_role 7 ''analyst''))
   \<and> (\<exists>m. router loaded_engine (predictCreditScoreDemo loaded_engine (1 / 2) 0)
             (Update [Set_status draft]) (Some (user_of_role 7 ''analyst'')) ''1'' some_context 0
             [blank_application ''1'' approved]
           = (Failure 400 m, [blank_application ''1'' approved]))"
proof -
  let ?e = loaded_engine and ?p = "predictCreditScoreDemo loaded_engine (1 / 2) 0"
  let ?rq = "Update [Set_status draft]" and ?db = "[blank_application ''1'' approved]"
  have l: "lacks_permission ?rq (Some (user_of_role 9 ''viewer''))"
    by (simp add: viewer_cannot_update)
  have f: "findOne ?db ''1'' = Some (blank_application ''1'' approved)"
    by (rule findOne_blank)
  have i: "illegal_from ?rq (status (blank_application ''1'' approved))"
    by (simp add: status_blank)
  have n: "\<not> lacks_permission ?rq (Some (user_of_role 7 ''analyst''))"
    by (simp add: analyst_can_update)
  have a: "\<exists>m. router ?e ?p ?rq (Some (user_of_role 9 ''viewer'')) ''1'' some_context 0 ?db
             = (Failure 403 m, ?db)"
    using rejected_attempt_is_noop
            [of ?e ?p ?rq "Some (user_of_role 9 ''viewer'')" "''1''" some_context 0 ?db,
             THEN conjunct2, THEN conjunct1, rule_format, OF l]
    by simp
  have b: "\<exists>m. router ?e ?p ?rq (Some (user_of_role 7 ''analyst'')) ''1'' some_context 0 ?db
             = (Failure 400 m, ?db)"
    by (rule rejected_attempt_is_noop
               [of _ _ _ _ _ _ _ _ "blank_application ''1'' approved",
                THEN conjunct2, THEN conjunct2, rule_format])
       (intro conjI f i n)
  show ?thesis by (intro conjI) (rule l, rule a, rule f, rule i, rule n, rule b)
qed

subsection \<open>Status changes\<close>

lemma status_object_assign:
  "status (object_assign app body) = status app
   \<or> Set_status (status (object_assign app body)) \<in> set body"
  unfolding object_assign_def
proof (induction body rule: rev_induct)
  case Nil
  then show ?case by simp
next
  case (snoc x xs)
  then show ?case by (cases x) auto
qed

lemma put_application_transitions:
  assumes "distinct (map doc_id db)"
    and "(s, s') \<in> set (transitions db (snd (put_application ru pid body ctx now db)))"
  shows "s \<noteq> approved \<and> s \<noteq> denied \<and> Set_status s' \<in> set body"
proof -
  from assms(2) obtain u app where c: "checkPermission ''applications'' ''update'' ru = Inr u"
    and f: "findOne db pid = Some app" and n: "status app \<notin> set [approved, denied]"
    and t: "(s, s') \<in> set (transitions db (save (addAuditEntry ''application_updated'' u
              (Updated_details (map field_key body) (status (object_assign app body))) ctx now
              (object_assign app body)) db))"
    by (auto simp: put_application_def Let_def transitions_same
        split: sum.splits option.splits if_splits)
  let ?app' = "addAuditEntry ''application_updated'' u
              (Updated_details (map field_key body) (status (object_assign app body))) ctx now
              (object_assign app body)"
  have i: "doc_id ?app' = doc_id app"
    by (simp add: doc_id_addAuditEntry doc_id_object_assign)
  from transitions_save[OF assms(1) findOne_mem[OF f] i t]
  have "s = status app \<and> s' = status (object_assign app body) \<and> s \<noteq> s'"
    unfolding status_addAuditEntry .
  with n status_object_assign[of app body] show ?thesis by auto
qed

lemma post_application_submit_transitions:
  assumes "distinct (map doc_id db)"
    and "(s, s') \<in> set (transitions db (snd (post_application_submit ru pid ctx now db)))"
  shows "s = draft \<and> s' = submitted"
  using assms
  by (auto simp: post_application_submit_def Let_def transitions_same doc_id_addAuditEntry
        status_addAuditEntry
      split: sum.splits option.splits if_splits
      dest!: transitions_save[rotated 3] findOne_mem)

lemma post_application_assign_transitions:
  assumes "distinct (map doc_id db)"
    and "(s, s') \<in> set (transitions db (snd (post_application_assign ru pid x ctx now db)))"
  shows "s' = under_review"
  using assms
  by (auto simp: post_application_assign_def Let_def transitions_same doc_id_addAuditEntry
        status_addAuditEntry
      split: sum.splits option.splits if_splits
      dest!: transitions_save[rotated 3] findOne_mem)

lemma post_application_notes_transitions:
  assumes "distinct (map doc_id db)"
  shows "transitions db (snd (post_application_notes ru pid note cat ctx now db)) = []"
proof -
  have "False"
    if "(s, s') \<in> set (transitions db (snd (post_application_notes ru pid note cat ctx now db)))"
    for s s'
    using assms that
    by (auto simp: post_application_notes_def Let_def transitions_same doc_id_addAuditEntry
          status_addAuditEntry
        split: sum.splits option.splits if_splits
        dest!: transitions_save[rotated 3] findOne_mem)
  then show ?thesis by (rule no_pairs_Nil)
qed

lemma post_ai_analyze_transitions:
  assumes "distinct (map doc_id db)"
  shows "transitions db (snd (post_ai_analyze ru aid dta e predict ctx now db)) = []"
proof -
  have "False"
    if "(s, s') \<in> set (transitions db (snd (post_ai_analyze ru aid dta e predict ctx now db)))"
    for s s'
    using assms that
    by (auto simp: post_ai_analyze_def Let_def transitions_same doc_id_addAuditEntry
          status_addAuditEntry
        split: sum.splits option.splits if_splits
        dest!: transitions_save[rotated 3] findOne_by_applicationId_mem)
  then show ?thesis by (rule no_pairs_Nil)
qed

lemma submit_ok:
  assumes "findOne db pid = Some app" "status app = draft"
    and "hasPermission u ''applications'' ''update''"
  shows "post_application_submit (Some u) pid ctx now db =
           (Success 200, save (submitted_version app u ctx now) db)"
  using assms
  by (simp add: post_application_submit_def checkPermission_ok Let_def addAuditEntry_def
        push_def submitted_version_def)

lemma submit_step:
  "transitions [blank_application ''1'' draft]
     (snd (router e p Submit (Some (user_of_role 7 ''analyst'')) ''1'' some_context 0
            [blank_application ''1'' draft])) = [(draft, submitted)]"
  by (simp only: router.simps submit_ok[OF findOne_blank status_blank analyst_can_update]
        snd_conv)
     (simp add: save_def transitions_def submitted_version_def blank_application_def)

text \<open>
  Claim C1, as amended.  In a store with distinct document ids, every change of status
  that a request other than an assignment makes is either that of a submit, from draft to
  submitted, or that of a field update, from a status other than approved and denied to a
  status the request body carries.  So no update, submit, note addition or analysis
  changes the status of an approved or denied application, and a withdrawn one changes
  only by a field update.  What an assignment does is not part of the statement.
\<close>

theorem status_changes_of_the_core:
  assumes "distinct (map doc_id db)" and "\<not> is_assign rq"
    and "(s, s') \<in> set (transitions db (snd (router e predict rq ru pid ctx now db)))"
  shows "(carries_status rq s' \<and> s \<noteq> approved \<and> s \<noteq> denied)
         \<or> (rq = Submit \<and> s = draft \<and> s' = submitted)"
proof (cases rq)
  case (Update body)
  with assms put_application_transitions[of db s s' ru pid body ctx now] show ?thesis
    by auto
next
  case Submit
  with assms post_application_submit_transitions[of db s s' ru pid ctx now] show ?thesis
    by auto
next
  case (Assign x)
  with assms show ?thesis by simp
next
  case (Add_note n c)
  with assms post_application_notes_transitions[of db ru pid n c ctx now] show ?thesis
    by auto
next
  case (Analyze aid dta)
  with assms post_ai_analyze_transitions[of db ru aid dta e predict ctx now] show ?thesis
    by auto
qed

theorem status_changes_of_the_core_witness:
  "distinct (map doc_id [blank_application ''1'' draft]) \<and> \<not> is_assign Submit
   \<and> (draft, submitted) \<in> set (transitions [blank_application ''1'' draft]
        (snd (router loaded_engine (predictCreditScoreDemo loaded_engine (1 / 2) 0) Submit
               (Some (user_of_role 7 ''analyst'')) ''1'' some_context 0
               [blank_application ''1'' draft])))
   \<and> ((carries_status Submit submitted \<and> draft \<noteq> approved \<and> draft \<noteq> denied)
        \<or> (Submit = Submit \<and> draft = draft \<and> submitted = submitted))"
proof -
  have d: "distinct (map doc_id [blank_application ''1'' draft])" by simp
  have n: "\<not> is_assign Submit" by simp
  have t: "(draft, submitted) \<in> set (transitions [blank_application ''1'' draft]
        (snd (router loaded_engine (predictCreditScoreDemo loaded_engine (1 / 2) 0) Submit
               (Some (user_of_role 7 ''analyst'')) ''1'' some_context 0
               [blank_application ''1'' draft])))"
    by (simp only: submit_step) simp
  show ?thesis
    by (intro conjI) (rule d, rule n, rule t, rule status_changes_of_the_core[OF d n t])
qed

text \<open>
  The claim as stated fails: a field update is accepted on a withdrawn application and
  sets its status to the one the request body carries.
\<close>

theorem update_changes_withdrawn_status:
  "transitions [blank_application ''1'' withdrawn]
     (snd (router loaded_engine (predictCreditScoreDemo loaded_engine (1 / 2) 0)
            (Update [Set_status draft]) (Some (user_of_role 7 ''analyst'')) ''1'' some_context 0
            [blank_application ''1'' withdrawn]))
   = [(withdrawn, draft)]"
  by (simp add: put_application_def checkPermission_ok analyst_can_update findOne_def
        blank_application_def object_assign_def addAuditEntry_def save_def transitions_def
        Let_def)

text \<open>
  Claim C6, as amended.  For every draft application and every actor holding
  \<open>applications:update\<close>, submit succeeds: the stored application is the old one with
  status submitted, \<open>submittedAt\<close> set and exactly one audit entry \<open>application_submitted\<close>
  appended.  Among the requests other than a field update, submit is the only one that
  takes a draft to submitted; a field update whose body carries the status does so too.
\<close>

theorem submit_draft_succeeds:
  "(findOne db pid = Some app \<and> status app = draft
      \<and> hasPermission u ''applications'' ''update'' \<longrightarrow>
      post_application_submit (Some u) pid ctx now db =
        (Success 200, save (submitted_version app u ctx now) db)
      \<and> (distinct (map doc_id db) \<longrightarrow>
           findOne (save (submitted_version app u ctx now) db) pid =
             Some (submitted_version app u ctx now)))
   \<and> (distinct (map doc_id db) \<and> \<not> is_update rq
        \<and> (draft, submitted) \<in> set (transitions db (snd (router e predict rq ru pid ctx now db)))
      \<longrightarrow> rq = Submit)"
proof (intro conjI impI)
  assume h: "findOne db pid = Some app \<and> status app = draft
      \<and> hasPermission u ''applications'' ''update''"
  then show "post_application_submit (Some u) pid ctx now db =
      (Success 200, save (submitted_version app u ctx now) db)"
    by (simp add: submit_ok)
  assume "distinct (map doc_id db)"
  with h show "findOne (save (submitted_version app u ctx now) db) pid =
      Some (submitted_version app u ctx now)"
    by (intro findOne_save) (simp_all add: submitted_version_def)
next
  assume h: "distinct (map doc_id db) \<and> \<not> is_update rq
      \<and> (draft, submitted) \<in> set (transitions db (snd (router e predict rq ru pid ctx now db)))"
  show "rq = Submit"
  proof (cases rq)
    case (Update b)
    with h show ?thesis by simp
  next
    case Submit
    then show ?thesis .
  next
    case (Assign x)
    with h post_application_assign_transitions[of db draft submitted ru pid x ctx now]
    show ?thesis by simp
  next
    case (Add_note n c)
    with h post_application_notes_transitions[of db ru pid n c ctx now] show ?thesis by simp
  next
    case (Analyze aid dta)
    with h post_ai_analyze_transitions[of db ru aid dta e predict ctx now] show ?thesis
      by simp
  qed
qed

text \<open>Scenario B of the specification.\<close>

theorem submit_draft_succeeds_witness:
  "findOne [blank_application ''1'' draft] ''1'' = Some (blank_application ''1'' draft)
   \<and> status (blank_application ''1'' draft) = draft
   \<and> hasPermission (user_of_role 7 ''analyst'') ''applications'' ''update''
   \<and> distinct (map doc_id [blank_application ''1'' draft])
   \<and> post_application_submit (Some (user_of_role 7 ''analyst'')) ''1'' some_context 5
         [blank_application ''1'' draft]
       = (Success 200,
          save (submitted_version (blank_application ''1'' draft) (user_of_role 7 ''analyst'')
                  some_context 5) [blank_application ''1'' draft])
   \<and> findOne (save (submitted_version (blank_application ''1'' draft)
                      (user_of_role 7 ''analyst'') some_context 5)
                [blank_application ''1'' draft]) ''1''
       = Some (submitted_version (blank_application ''1'' draft) (user_of_role 7 ''analyst'')
                 some_context 5)
   \<and> \<not> is_update Submit
   \<and> (draft, submitted) \<in> set (transitions [blank_application ''1'' draft]
        (snd (router loaded_engine (predictCreditScoreDemo loaded_engine (1 / 2) 0) Submit
               (Some (user_of_role 7 ''analyst'')) ''1'' some_context 0
               [blank_application ''1'' draft])))
   \<and> (Submit :: request) = Submit"
proof -
  note f = findOne_blank[of draft] and s = status_blank[of "''1''" draft]
    and h = analyst_can_update and d = distinct_blank[of draft]
  note t = submit_draft_succeeds
      [of "[blank_application ''1'' draft]" "''1''" "blank_application ''1'' draft"
          "user_of_role 7 ''analyst''" some_context 5,
       THEN conjunct1, rule_format, OF conjI[OF f conjI[OF s h]]]
  have n: "\<not> is_update Submit" by simp
  have m: "(draft, submitted) \<in> set (transitions [blank_application ''1'' draft]
        (snd (router loaded_engine (predictCreditScoreDemo loaded_engine (1 / 2) 0) Submit
               (Some (user_of_role 7 ''analyst'')) ''1'' some_context 0
               [blank_application ''1'' draft])))"
    by (simp only: submit_step) simp
  note o = submit_draft_succeeds[THEN conjunct2, rule_format, OF conjI[OF d conjI[OF n m]]]
  show ?thesis
    by (intro conjI)
       (rule f, rule s, rule h, rule d, rule t[THEN conjunct1],
        rule t[THEN conjunct2, rule_format, OF d], rule n, rule m, rule o)
qed

text \<open>
  The claim as stated fails: a field update whose body carries the status takes a draft
  to submitted as well.
\<close>

theorem update_performs_draft_to_submitted:
  "transitions [blank_application ''1'' draft]
     (snd (router loaded_engine (predictCreditScoreDemo loaded_engine (1 / 2) 0)
            (Update [Set_status submitted]) (Some (user_of_role 7 ''analyst'')) ''1''
            some_context 0 [blank_application ''1'' draft]))
   = [(draft, submitted)]"
  by (simp add: put_application_def checkPermission_ok analyst_can_update findOne_def
        blank_application_def object_assign_def addAuditEntry_def save_def transitions_def
        Let_def)

end
